theory Spec2Isabelle
  imports Complex_Main
begin

section \<open>Numbers and errors\<close>

text \<open>
  A JavaScript number as the arithmetic of \<^verbatim>\<open>src/utils/exchange.ts\<close> sees it: the
  three non-finite values and the finite ones. Finite values are exact rationals: rounding
  to 53 bits and the sign of zero are left out. An \<^verbatim>\<open>undefined\<close> operand becomes
  \<open>NaN\<close> under the multiplication and the division, as \<^verbatim>\<open>ToNumber\<close> does.
\<close>

datatype jsnum = NaN | PInf | NInf | Fin rat

fun js_mul :: "jsnum \<Rightarrow> jsnum \<Rightarrow> jsnum" where
  "js_mul NaN y = NaN"
| "js_mul x NaN = NaN"
| "js_mul (Fin x) (Fin y) = Fin (x * y)"
| "js_mul (Fin x) PInf = (if x = 0 then NaN else if 0 < x then PInf else NInf)"
| "js_mul (Fin x) NInf = (if x = 0 then NaN else if 0 < x then NInf else PInf)"
| "js_mul PInf (Fin y) = (if y = 0 then NaN else if 0 < y then PInf else NInf)"
| "js_mul NInf (Fin y) = (if y = 0 then NaN else if 0 < y then NInf else PInf)"
| "js_mul PInf PInf = PInf"
| "js_mul PInf NInf = NInf"
| "js_mul NInf PInf = NInf"
| "js_mul NInf NInf = PInf"

fun js_div :: "jsnum \<Rightarrow> jsnum \<Rightarrow> jsnum" where
  "js_div NaN y = NaN"
| "js_div x NaN = NaN"
| "js_div (Fin x) (Fin y) =
     (if y = 0 then (if x = 0 then NaN else if 0 < x then PInf else NInf)
      else Fin (x / y))"
| "js_div (Fin x) PInf = Fin 0"
| "js_div (Fin x) NInf = Fin 0"
| "js_div PInf (Fin y) = (if 0 \<le> y then PInf else NInf)"
| "js_div NInf (Fin y) = (if 0 \<le> y then NInf else PInf)"
| "js_div PInf PInf = NaN"
| "js_div PInf NInf = NaN"
| "js_div NInf PInf = NaN"
| "js_div NInf NInf = NaN"

text \<open>Every \<^verbatim>\<open>throw\<close> and rejected promise of the modelled functions.\<close>

datatype error =
    OracleUnavailable
  | RpcFailure
  | StoreFailure
  | DuplicateTxHash
  | InvalidAddress
  | InsufficientPoolBalance
  | InsufficientAfterWithdrawal
  | TxNotBroadcast
  | TokenOwnerOffCurve
  | BalanceReadFailed

section \<open>The rate oracle: \<^verbatim>\<open>src/utils/exchange.ts\<close>\<close>

text \<open>
  \<^verbatim>\<open>getRate\<close> asks the price service for three prices. The reply of the HTTP call is
  the argument: \<open>Inl\<close> when the request is rejected or the body has no entry for one
  of the three coins, so that reading its price throws; otherwise the three prices read
  from the body, a missing price being \<^verbatim>\<open>undefined\<close>, which the arithmetic turns
  into \<open>NaN\<close>.
\<close>

record price_data =
  tron_usd :: jsnum
  ethereum_usd :: jsnum
  solana_usd :: jsnum

record rates =
  TRX_USDT :: jsnum
  ETH_USDT :: jsnum
  SOL_USDT :: jsnum
  USDT_USDT :: jsnum

type_synonym http_reply = "error + price_data"

definition getRate :: "http_reply \<Rightarrow> error + rates" where
  "getRate reply =
     (case reply of
        Inl e \<Rightarrow> Inl e
      | Inr d \<Rightarrow> Inr \<lparr>TRX_USDT = tron_usd d, ETH_USDT = ethereum_usd d,
                      SOL_USDT = solana_usd d, USDT_USDT = Fin 1\<rparr>)"

text \<open>
  A JavaScript string is given by its code points; \<open>js\<close> reads a string of 8-bit
  characters as one.
\<close>

type_synonym jsstring = "nat list"

definition js :: "string \<Rightarrow> jsstring" where
  "js s = map of_char s"

text \<open>
  \<^verbatim>\<open>String.prototype.toUpperCase\<close> maps every code point to its upper-case form in
  Unicode, which can be more than one code point. Up to U+00FF the mapping is written
  out: the letters a to z, the micro sign (to U+039C), the sharp s (to SS), the accented
  letters U+00E0 to U+00FE except the division sign, and U+00FF (to U+0178). Above
  U+00FF it is the argument \<open>tbl\<close>: the properties below hold for every such mapping, so
  for the one of the runtime, which for instance sends U+017F (long s) to S.
\<close>

definition latin1_upper :: "nat \<Rightarrow> nat list" where
  "latin1_upper c =
     (if 97 \<le> c \<and> c \<le> 122 then [c - 32]
      else if c = 181 then [924]
      else if c = 223 then [83, 83]
      else if 224 \<le> c \<and> c \<le> 254 \<and> c \<noteq> 247 then [c - 32]
      else if c = 255 then [376]
      else [c])"

definition upper_point :: "(nat \<Rightarrow> nat list) \<Rightarrow> nat \<Rightarrow> nat list" where
  "upper_point tbl c = (if c < 256 then latin1_upper c else tbl c)"

definition toUpperCase :: "(nat \<Rightarrow> nat list) \<Rightarrow> jsstring \<Rightarrow> jsstring" where
  "toUpperCase tbl s = concat (map (upper_point tbl) s)"

text \<open>
  The object literal \<^verbatim>\<open>toUSDT\<close>. A key that is absent reads as \<^verbatim>\<open>undefined\<close>, and
  a key inherited from \<^verbatim>\<open>Object.prototype\<close> as a function or an object; each of
  them is \<open>NaN\<close> as an operand of the multiplication and of the division.
\<close>

definition toUSDT :: "rates \<Rightarrow> (jsstring \<times> jsnum) list" where
  "toUSDT r =
     [(js ''TRX'', TRX_USDT r), (js ''ETH'', ETH_USDT r), (js ''SOL'', SOL_USDT r),
      (js ''USD'', Fin 1), (js ''USDT'', Fin 1), (js ''USDC'', Fin 1)]"

definition lookup_rate :: "rates \<Rightarrow> jsstring \<Rightarrow> jsnum" where
  "lookup_rate r symbol = (case map_of (toUSDT r) symbol of None \<Rightarrow> NaN | Some v \<Rightarrow> v)"

text \<open>
  \<^verbatim>\<open>convert\<close> awaits \<^verbatim>\<open>getRate\<close> before anything else, so a rejected request is
  rethrown whatever the symbols are. The symbols are strings, as every caller passes
  them.
\<close>

definition convert ::
  "(nat \<Rightarrow> nat list) \<Rightarrow> http_reply \<Rightarrow> jsnum \<Rightarrow> jsstring \<Rightarrow> jsstring \<Rightarrow> error + jsnum" where
  "convert tbl reply amount fromSymbol toSymbol =
     (case getRate reply of
        Inl e \<Rightarrow> Inl e
      | Inr r \<Rightarrow>
          (let normalizedFromSymbol = toUpperCase tbl fromSymbol;
               normalizedToSymbol = toUpperCase tbl toSymbol;
               amountInUSDT = js_mul amount (lookup_rate r normalizedFromSymbol);
               result = js_div amountInUSDT (lookup_rate r normalizedToSymbol)
           in Inr result))"

definition supported_symbols :: "jsstring set" where
  "supported_symbols =
     {js ''TRX'', js ''ETH'', js ''SOL'', js ''USD'', js ''USDT'', js ''USDC''}"

definition stable_symbols :: "jsstring set" where
  "stable_symbols = {js ''USD'', js ''USDT'', js ''USDC''}"

text \<open>
  The callers inside the repository pass symbols of 8-bit characters, which never reach
  the mapping above U+00FF (lemma \<open>convert_latin1\<close>); they are given the mapping that
  leaves those code points unchanged.
\<close>

definition unchanged :: "nat \<Rightarrow> nat list" where
  "unchanged c = [c]"

section \<open>Effects of the withdrawal engine\<close>

text \<open>
  A withdrawal talks to a chain node and to the ledger. The model threads a record of
  what has been sent: every instruction handed to the chain's write interface, in order,
  and every row handed to the ledger helpers.
\<close>

datatype submission =
    SolTransfer string int
  | UsdcTransfer string int
  | CreateTokenAccount string
  | TrxSend string "int option"
  | Trc20Transfer string int

record tx_row =
  row_userId :: nat
  row_address :: string
  row_amount :: rat
  row_currency :: string
  row_txId :: string
  row_type :: string

record effects =
  submitted :: "submission list"
  saved :: "tx_row list"
  debited :: "(nat \<times> rat \<times> string) list"

text \<open>
  Modelled from the spec: \<^verbatim>\<open>saveTransaction\<close> and \<^verbatim>\<open>minusBalance\<close> of
  \<^verbatim>\<open>db/wallets\<close> are imported by the withdrawal modules but are not among the source
  files. The spec has the first persist a Transaction record and the second decrement the
  Balance Record; here each call is recorded with the arguments it was given.
\<close>

definition saveTransaction ::
  "effects \<Rightarrow> nat \<Rightarrow> string \<Rightarrow> rat \<Rightarrow> string \<Rightarrow> string \<Rightarrow> string \<Rightarrow> effects" where
  "saveTransaction w userId address amount currency txId type =
     w\<lparr>saved := saved w @
        [\<lparr>row_userId = userId, row_address = address, row_amount = amount,
          row_currency = currency, row_txId = txId, row_type = type\<rparr>]\<rparr>"

definition minusBalance :: "effects \<Rightarrow> nat \<Rightarrow> rat \<Rightarrow> string \<Rightarrow> effects" where
  "minusBalance w userId amount currency =
     w\<lparr>debited := debited w @ [(userId, amount, currency)]\<rparr>"

definition submit :: "effects \<Rightarrow> submission \<Rightarrow> effects" where
  "submit w i = w\<lparr>submitted := submitted w @ [i]\<rparr>"

text \<open>\<^verbatim>\<open>BigNumber.integerValue(ROUND_DOWN)\<close> rounds towards zero.\<close>

definition round_down :: "rat \<Rightarrow> int" where
  "round_down x = (if 0 \<le> x then \<lfloor>x\<rfloor> else \<lceil>x\<rceil>)"

text \<open>\<^verbatim>\<open>BigNumber.toFixed(0)\<close> rounds to the nearest integer, halves away from zero.\<close>

definition round_half_up :: "rat \<Rightarrow> int" where
  "round_half_up x = (if 0 \<le> x then \<lfloor>x + 1/2\<rfloor> else \<lceil>x - 1/2\<rceil>)"

section \<open>Solana withdrawals\<close>

text \<open>
  The module with \<^verbatim>\<open>withdrawSol\<close> and \<^verbatim>\<open>withdrawUsdc\<close>, taken as initialised: it has
  its connection, the key pair of the main pool and a well-formed mint address. Amounts
  are finite numbers, held exactly as \<^verbatim>\<open>BigNumber\<close> holds them. The node answers the
  reads and the writes: \<open>valid_address\<close> is whether \<^verbatim>\<open>new PublicKey(address)\<close>
  succeeds, \<open>associated_token_address\<close> the reply of
  \<^verbatim>\<open>getAssociatedTokenAddress(mint, owner)\<close>, which throws for an owner that is not on
  the curve and otherwise returns the address of the owner's token account,
  \<open>pool_lamports\<close> the reply of \<^verbatim>\<open>connection.getBalance\<close> for the main pool,
  \<open>token_account\<close> the reply of \<^verbatim>\<open>getAccount\<close> for a token account (its amount in
  base units), \<open>send\<close> the reply of \<^verbatim>\<open>sendAndConfirmTransaction\<close> (the signature).
\<close>

record solana_node =
  valid_address :: "string \<Rightarrow> bool"
  associated_token_address :: "string \<Rightarrow> error + string"
  main_pool :: string
  pool_lamports :: "error + nat"
  token_account :: "string \<Rightarrow> error + nat"
  send :: "submission \<Rightarrow> error + string"

definition SOL_WITHDRAWAL_FEE :: rat where "SOL_WITHDRAWAL_FEE = 5 / 1000"
definition USDC_WITHDRAWAL_FEE :: rat where "USDC_WITHDRAWAL_FEE = 1"
definition MIN_SOL_BALANCE :: rat where "MIN_SOL_BALANCE = 1 / 100"
definition MIN_USDC_BALANCE :: rat where "MIN_USDC_BALANCE = 1"
definition LAMPORTS_PER_SOL :: rat where "LAMPORTS_PER_SOL = 1000000000"

definition isValidSolanaAddress :: "solana_node \<Rightarrow> string \<Rightarrow> bool" where
  "isValidSolanaAddress node address = valid_address node address"

text \<open>
  \<^verbatim>\<open>getUsdcBalance\<close>: whatever fails before the account is read is rethrown as
  \<^verbatim>\<open>Failed to get USDC balance\<close>; an account that cannot be read counts as empty.
\<close>

definition getUsdcBalance :: "solana_node \<Rightarrow> string \<Rightarrow> error + rat" where
  "getUsdcBalance node address =
     (if \<not> valid_address node address then Inl BalanceReadFailed
      else
        (case associated_token_address node address of
           Inl e \<Rightarrow> Inl BalanceReadFailed
         | Inr associatedTokenAddress \<Rightarrow>
             (case token_account node associatedTokenAddress of
                Inl e \<Rightarrow> Inr 0
              | Inr units \<Rightarrow> Inr (of_nat units / 1000000))))"

definition withdrawSol ::
  "solana_node \<Rightarrow> effects \<Rightarrow> nat \<Rightarrow> string \<Rightarrow> rat \<Rightarrow> (error + string) \<times> effects" where
  "withdrawSol node w userId to amount =
     (if \<not> isValidSolanaAddress node to then (Inl InvalidAddress, w)
      else
        let totalAmount = amount + SOL_WITHDRAWAL_FEE;
            lamports = round_down (totalAmount * LAMPORTS_PER_SOL)
        in case pool_lamports node of
             Inl e \<Rightarrow> (Inl e, w)
           | Inr mainPoolBalance \<Rightarrow>
               let mainPoolBalanceSOL = of_nat mainPoolBalance / LAMPORTS_PER_SOL in
               if int mainPoolBalance < lamports then (Inl InsufficientPoolBalance, w)
               else if mainPoolBalanceSOL - totalAmount < MIN_SOL_BALANCE
               then (Inl InsufficientAfterWithdrawal, w)
               else
                 let w1 = submit w (SolTransfer to lamports) in
                 (case send node (SolTransfer to lamports) of
                    Inl e \<Rightarrow> (Inl e, w1)
                  | Inr signature \<Rightarrow>
                      if signature = [] then (Inl TxNotBroadcast, w1)
                      else
                        let w2 = saveTransaction w1 userId to (- amount) ''SOL'' signature
                                   ''withdraw'';
                            w3 = minusBalance w2 userId amount ''SOL''
                        in (Inr signature, w3)))"

definition withdrawUsdc ::
  "solana_node \<Rightarrow> effects \<Rightarrow> nat \<Rightarrow> string \<Rightarrow> rat \<Rightarrow> (error + string) \<times> effects" where
  "withdrawUsdc node w userId to amount =
     (if \<not> isValidSolanaAddress node to then (Inl InvalidAddress, w)
      else
        let totalAmount = amount + USDC_WITHDRAWAL_FEE in
        case associated_token_address node to of
          Inl e \<Rightarrow> (Inl e, w)
        | Inr recipientTokenAccount \<Rightarrow>
        (case associated_token_address node (main_pool node) of
          Inl e \<Rightarrow> (Inl e, w)
        | Inr mainPoolTokenAccount \<Rightarrow>
        (case getUsdcBalance node (main_pool node) of
          Inl e \<Rightarrow> (Inl e, w)
        | Inr mainPoolUsdcBalance \<Rightarrow>
            if mainPoolUsdcBalance < totalAmount then (Inl InsufficientPoolBalance, w)
            else if mainPoolUsdcBalance - totalAmount < MIN_USDC_BALANCE
            then (Inl InsufficientAfterWithdrawal, w)
            else
              let created =
                    (case token_account node recipientTokenAccount of
                       Inr units \<Rightarrow> (Inr [], w)
                     | Inl e \<Rightarrow> (send node (CreateTokenAccount recipientTokenAccount),
                                 submit w (CreateTokenAccount recipientTokenAccount)))
              in (case fst created of
                    Inl e \<Rightarrow> (Inl e, snd created)
                  | Inr ignored \<Rightarrow>
                      let transferAmount = round_down (totalAmount * 1000000);
                          w1 = submit (snd created)
                                 (UsdcTransfer recipientTokenAccount transferAmount)
                      in (case send node (UsdcTransfer recipientTokenAccount transferAmount) of
                            Inl e \<Rightarrow> (Inl e, w1)
                          | Inr signature \<Rightarrow>
                              if signature = [] then (Inl TxNotBroadcast, w1)
                              else
                                let w2 = saveTransaction w1 userId to (- amount) ''USDC''
                                           signature ''withdraw'';
                                    w3 = minusBalance w2 userId amount ''USDC''
                                in (Inr signature, w3))))))"

section \<open>Tron withdrawals: \<^verbatim>\<open>src/blockchain/tron.ts\<close>\<close>

text \<open>
  The Tron node: \<open>pool_usdt\<close> and \<open>pool_trx\<close> are what the main pool holds (no
  withdrawal function reads them), \<open>contract_at\<close> is the reply of
  \<^verbatim>\<open>contract().at(USDT_CONTRACT)\<close>, \<open>contract_transfer\<close> the reply of the TRC20
  \<^verbatim>\<open>transfer(to, rawAmount).send\<close> (the transaction id), \<open>trx_send\<close> the reply of
  \<^verbatim>\<open>trx.sendTransaction\<close> (the \<^verbatim>\<open>txid\<close> field of the returned object, if any).
\<close>

record tron_node =
  pool_usdt :: rat
  pool_trx :: rat
  contract_at :: "error + unit"
  contract_transfer :: "string \<Rightarrow> int \<Rightarrow> error + string"
  trx_send :: "string \<Rightarrow> int option \<Rightarrow> error + string option"

definition withdrawTokenTron ::
  "tron_node \<Rightarrow> effects \<Rightarrow> nat \<Rightarrow> string \<Rightarrow> rat \<Rightarrow> (error + string) \<times> effects" where
  "withdrawTokenTron node w userId to amount =
     (case contract_at node of
        Inl e \<Rightarrow> (Inl e, w)
      | Inr contract \<Rightarrow>
          (let rawAmount = round_half_up (amount * 1000000);
               w1 = submit w (Trc20Transfer to rawAmount)
           in case contract_transfer node to rawAmount of
                Inl e \<Rightarrow> (Inl e, w1)
              | Inr txId \<Rightarrow>
                  (Inr txId,
                   saveTransaction w1 userId to (- amount) ''USDT'' ''-'' ''withdraw'')))"

text \<open>
  The amount of \<^verbatim>\<open>withdrawTrx\<close> goes through \<^verbatim>\<open>amount.toString()\<close>, so it is given
  through what that prints: a finite number is zero or has a sign, the digits
  \<open>d\<^sub>1 \<dots> d\<^sub>k\<close> of its shortest decimal form and the exponent \<open>n\<close> with value
  \<open>0.d\<^sub>1 \<dots> d\<^sub>k \<times> 10\<^sup>n\<close>.
\<close>

datatype decimal = Zero | Dec bool "nat list" int

definition digits_value :: "nat list \<Rightarrow> nat" where
  "digits_value ds = foldl (\<lambda>acc d. 10 * acc + d) 0 ds"

fun pow10 :: "int \<Rightarrow> rat" where
  "pow10 e = (if 0 \<le> e then 10 ^ nat e else 1 / 10 ^ nat (- e))"

fun value_of :: "decimal \<Rightarrow> rat" where
  "value_of Zero = 0"
| "value_of (Dec negative ds n) =
     (if negative then - 1 else 1) * of_nat (digits_value ds) * pow10 (n - int (length ds))"

definition digit_char :: "nat \<Rightarrow> char" where
  "digit_char d = ''0123456789'' ! d"

fun show_nat :: "nat \<Rightarrow> string" where
  "show_nat n = (if n < 10 then [digit_char n] else show_nat (n div 10) @ [digit_char (n mod 10)])"

text \<open>\<^verbatim>\<open>Number.prototype.toString\<close> for radix 10, by the cases of the language standard.\<close>

definition positive_toString :: "nat list \<Rightarrow> int \<Rightarrow> string" where
  "positive_toString ds n =
     (let k = int (length ds); cs = map digit_char ds in
      if k \<le> n \<and> n \<le> 21 then cs @ replicate (nat (n - k)) CHR ''0''
      else if 0 < n \<and> n \<le> 21 then take (nat n) cs @ ''.'' @ drop (nat n) cs
      else if - 6 < n \<and> n \<le> 0 then ''0.'' @ replicate (nat (- n)) CHR ''0'' @ cs
      else
        let e = n - 1;
            exponent = (if 0 \<le> e then ''+'' else ''-'') @ show_nat (nat \<bar>e\<bar>)
        in if k = 1 then cs @ ''e'' @ exponent
           else take 1 cs @ ''.'' @ drop 1 cs @ ''e'' @ exponent)"

fun toString :: "decimal \<Rightarrow> string" where
  "toString Zero = ''0''"
| "toString (Dec negative ds n) = (if negative then ''-'' else []) @ positive_toString ds n"

text \<open>
  \<^verbatim>\<open>parseInt\<close> without a radix: leading white space, an optional sign, then the longest
  run of decimal digits; \<open>None\<close> is \<open>NaN\<close>, returned when there is no digit. The
  hexadecimal prefix is left out: \<open>toString\<close> never prints one.
\<close>

definition is_digit :: "char \<Rightarrow> bool" where
  "is_digit c = (c \<in> set ''0123456789'')"

definition digit_of :: "char \<Rightarrow> nat" where
  "digit_of c = (case map_of (zip ''0123456789'' [0, 1, 2, 3, 4, 5, 6, 7, 8, 9]) c of
                   None \<Rightarrow> 0 | Some d \<Rightarrow> d)"

definition parseInt :: "string \<Rightarrow> int option" where
  "parseInt str =
     (let s = dropWhile (\<lambda>c. c = CHR '' '') str;
          negative = (case s of [] \<Rightarrow> False | c # r \<Rightarrow> c = CHR ''-'');
          r = (case s of [] \<Rightarrow> [] | c # r \<Rightarrow> if c = CHR ''-'' \<or> c = CHR ''+'' then r else s);
          ds = takeWhile is_digit r
      in if ds = [] then None
         else Some ((if negative then - 1 else 1) * int (digits_value (map digit_of ds))))"

definition withdrawTrx ::
  "tron_node \<Rightarrow> effects \<Rightarrow> nat \<Rightarrow> string \<Rightarrow> decimal \<Rightarrow> (error + unit) \<times> effects" where
  "withdrawTrx node w userId to amount =
     (let rawAmount = map_option (\<lambda>i. i * 1000000) (parseInt (toString amount));
          w1 = submit w (TrxSend to rawAmount)
      in case trx_send node to rawAmount of
           Inl e \<Rightarrow> (Inl e, w1)
         | Inr None \<Rightarrow> (Inl TxNotBroadcast, w1)
         | Inr (Some txid) \<Rightarrow>
             (Inr (), saveTransaction w1 userId to (- value_of amount) ''TRX'' txid
                        ''withdraw''))"

section \<open>Listing recent transactions\<close>

text \<open>
  The Tron listener, \<^verbatim>\<open>src/blockchain/depositListeners/tron.ts\<close>. A client that could
  not be constructed is \<open>None\<close>; a client answers
  \<^verbatim>\<open>trx.getTransactionsRelated(address, 'to', limit)\<close> with a failure, with something
  that is not an array (\<open>None\<close>) or with a list of transactions. A transaction is its
  \<^verbatim>\<open>txID\<close> with the rest of its fields.
\<close>

type_synonym 'a tron_client = "string \<Rightarrow> nat \<Rightarrow> error + (string \<times> 'a) list option"

text \<open>\<^verbatim>\<open>Map.prototype.set\<close>: a key already present keeps its place and takes the new value.\<close>

fun map_set :: "(string \<times> 'a) list \<Rightarrow> string \<Rightarrow> 'a \<Rightarrow> (string \<times> 'a) list" where
  "map_set [] k v = [(k, v)]"
| "map_set ((k', v') # m) k v =
     (if k' = k then (k, v) # m else (k', v') # map_set m k v)"

definition related :: "'a tron_client option \<Rightarrow> string \<Rightarrow> nat \<Rightarrow> (string \<times> 'a) list" where
  "related client address limit =
     (case client of
        None \<Rightarrow> []
      | Some ask \<Rightarrow>
          (case ask address limit of
             Inl e \<Rightarrow> []
           | Inr None \<Rightarrow> []
           | Inr (Some txs) \<Rightarrow> txs))"

definition getRecentTransactions_tron ::
  "'a tron_client option \<Rightarrow> 'a tron_client option \<Rightarrow> string \<Rightarrow> nat \<Rightarrow>
     error + (string \<times> 'a) list" where
  "getRecentTransactions_tron tronWebShasta tronWebMainnet address limit =
     (if tronWebShasta = None \<and> tronWebMainnet = None then Inr []
      else
        let results = related tronWebShasta address limit @ related tronWebMainnet address limit;
            uniq = foldl (\<lambda>m tx. map_set m (fst tx) tx) [] results
        in Inr (map snd uniq))"

text \<open>
  The Ethereum provider, as the two Ethereum listings use it. A log is the hash of its
  transaction; \<^verbatim>\<open>getTransaction\<close> and \<^verbatim>\<open>getTransactionReceipt\<close> answer with a failure,
  with \<^verbatim>\<open>null\<close> or with a value.
\<close>

record ('tx, 'rc) eth_provider =
  getBlockNumber :: "error + nat"
  getLogs :: "string \<Rightarrow> nat \<Rightarrow> nat \<Rightarrow> error + string list"
  getTransaction :: "string \<Rightarrow> error + 'tx option"
  getTransactionReceipt :: "string \<Rightarrow> error + 'rc option"

text \<open>\<^verbatim>\<open>getRecentTransactions\<close> of \<^verbatim>\<open>src/blockchain/depositListeners/ethereum.ts\<close>.\<close>

fun fetch_transactions :: "('tx, 'rc) eth_provider \<Rightarrow> string list \<Rightarrow> 'tx list" where
  "fetch_transactions provider [] = []"
| "fetch_transactions provider (h # logs) =
     (case getTransaction provider h of
        Inl e \<Rightarrow> fetch_transactions provider logs
      | Inr None \<Rightarrow> fetch_transactions provider logs
      | Inr (Some tx) \<Rightarrow> tx # fetch_transactions provider logs)"

definition getRecentTransactions_ethereum ::
  "('tx, 'rc) eth_provider \<Rightarrow> string \<Rightarrow> nat \<Rightarrow> error + 'tx list" where
  "getRecentTransactions_ethereum provider address fromBlock =
     (case getBlockNumber provider of
        Inl e \<Rightarrow> Inr []
      | Inr currentBlock \<Rightarrow>
          (let toBlock = min currentBlock (fromBlock + 1000) in
           case getLogs provider address fromBlock toBlock of
             Inl e \<Rightarrow> Inr []
           | Inr logs \<Rightarrow> Inr (fetch_transactions provider logs)))"

text \<open>\<^verbatim>\<open>getRecentTransactionsForAddress\<close> of \<^verbatim>\<open>src/blockchain/ethereum-deposits.ts\<close>.\<close>

fun fetch_with_receipts :: "('tx, 'rc) eth_provider \<Rightarrow> string list \<Rightarrow> ('tx \<times> 'rc) list" where
  "fetch_with_receipts provider [] = []"
| "fetch_with_receipts provider (h # logs) =
     (case getTransaction provider h of
        Inl e \<Rightarrow> fetch_with_receipts provider logs
      | Inr tx \<Rightarrow>
          (case getTransactionReceipt provider h of
             Inl e \<Rightarrow> fetch_with_receipts provider logs
           | Inr receipt \<Rightarrow>
               (case (tx, receipt) of
                  (Some t, Some r) \<Rightarrow> (t, r) # fetch_with_receipts provider logs
                | _ \<Rightarrow> fetch_with_receipts provider logs)))"

definition getRecentTransactionsForAddress ::
  "('tx, 'rc) eth_provider \<Rightarrow> string \<Rightarrow> nat \<Rightarrow> nat \<Rightarrow> error + ('tx \<times> 'rc) list" where
  "getRecentTransactionsForAddress provider address fromBlock toBlock =
     (case getLogs provider address fromBlock toBlock of
        Inl e \<Rightarrow> Inr []
      | Inr logs \<Rightarrow> Inr (fetch_with_receipts provider logs))"

section \<open>Pollers\<close>

text \<open>
  A poller is driven by its timer. What is kept of its state: the module variable
  \<^verbatim>\<open>isPolling\<close>, how many scan cycles have started and not yet finished, how many
  have started in all, and how many invocations returned at once without scanning. A
  cycle that has started finishes at some later point, after its awaits; an invocation
  of the polling function and the end of a cycle are the events.
\<close>

record poller =
  isPolling :: bool
  in_flight :: nat
  started :: nat
  skipped :: nat

definition idle :: poller where
  "idle = \<lparr>isPolling = False, in_flight = 0, started = 0, skipped = 0\<rparr>"

text \<open>
  \<^verbatim>\<open>pollForDeposits\<close> of \<^verbatim>\<open>src/blockchain/solana-deposits.ts\<close> and of
  \<^verbatim>\<open>src/blockchain/ethereum-deposits.ts\<close>: the entry of the function, its
  \<^verbatim>\<open>finally\<close> block, and \<^verbatim>\<open>stopSolanaDepositMonitoring\<close>, which clears the flag and
  leaves the timer running.
\<close>

definition pollForDeposits :: "poller \<Rightarrow> poller" where
  "pollForDeposits p =
     (if isPolling p then p\<lparr>skipped := skipped p + 1\<rparr>
      else p\<lparr>isPolling := True, in_flight := in_flight p + 1, started := started p + 1\<rparr>)"

definition pollForDeposits_finally :: "poller \<Rightarrow> poller" where
  "pollForDeposits_finally p =
     (if in_flight p = 0 then p else p\<lparr>isPolling := False, in_flight := in_flight p - 1\<rparr>)"

definition stopSolanaDepositMonitoring :: "poller \<Rightarrow> poller" where
  "stopSolanaDepositMonitoring p = p\<lparr>isPolling := False\<rparr>"

text \<open>
  \<^verbatim>\<open>monitorSolanaDeposits\<close> of \<^verbatim>\<open>src/blockchain/depositListeners/solana.ts\<close>, which
  the timer of \<^verbatim>\<open>startSolanaDepositMonitoring\<close> invokes every five seconds: it reads
  no flag.
\<close>

definition monitorSolanaDeposits :: "poller \<Rightarrow> poller" where
  "monitorSolanaDeposits p = p\<lparr>in_flight := in_flight p + 1, started := started p + 1\<rparr>"

definition monitorSolanaDeposits_return :: "poller \<Rightarrow> poller" where
  "monitorSolanaDeposits_return p =
     (if in_flight p = 0 then p else p\<lparr>in_flight := in_flight p - 1\<rparr>)"

datatype poll_event = Invoke | Complete | Stop

fun guarded_step :: "poller \<Rightarrow> poll_event \<Rightarrow> poller" where
  "guarded_step p Invoke = pollForDeposits p"
| "guarded_step p Complete = pollForDeposits_finally p"
| "guarded_step p Stop = stopSolanaDepositMonitoring p"

fun listener_step :: "poller \<Rightarrow> poll_event \<Rightarrow> poller" where
  "listener_step p Invoke = monitorSolanaDeposits p"
| "listener_step p Complete = monitorSolanaDeposits_return p"
| "listener_step p Stop = p"

text \<open>
  A sequence of events in which the stop function is only called while no cycle is in
  flight, from the state \<open>p\<close> on.
\<close>

fun stops_between_cycles :: "poller \<Rightarrow> poll_event list \<Rightarrow> bool" where
  "stops_between_cycles p [] = True"
| "stops_between_cycles p (Stop # evs) =
     (in_flight p = 0 \<and> stops_between_cycles (guarded_step p Stop) evs)"
| "stops_between_cycles p (Invoke # evs) = stops_between_cycles (guarded_step p Invoke) evs"
| "stops_between_cycles p (Complete # evs) = stops_between_cycles (guarded_step p Complete) evs"

section \<open>The deposit store\<close>

datatype status = Pending | Confirmed | FailedStatus

text \<open>
  A Deposit Record with the fields the code writes. The order id and the timestamps,
  made from the clock and a random number, are left out. Amounts are exact rationals.
\<close>

record deposit =
  dep_userId :: nat
  dep_txHash :: string
  dep_fromAddress :: "string option"
  dep_toAddress :: string
  dep_currency :: string
  dep_network :: string
  dep_amount :: rat
  dep_rate :: "jsnum option"
  dep_realArrival :: "jsnum option"
  dep_status :: status
  dep_type :: string
  dep_blockNumber :: "int option"
  dep_confirmations :: nat

record store =
  deposits :: "deposit list"
  balances :: "nat \<times> string \<Rightarrow> rat option"

text \<open>
  Modelled from the spec: the database schema is not among the source files. The spec
  gives the Deposit table a unique index on \<open>txHash\<close>, so that creating a second record
  with the same hash fails (the code's \<^verbatim>\<open>findUnique\<close> and \<^verbatim>\<open>update\<close> by \<open>txHash\<close>
  rely on that index), and one Balance row per user and currency.
\<close>

definition deposit_findFirst :: "store \<Rightarrow> string \<Rightarrow> deposit option" where
  "deposit_findFirst st txHash = find (\<lambda>d. dep_txHash d = txHash) (deposits st)"

definition deposit_create :: "store \<Rightarrow> deposit \<Rightarrow> error + store" where
  "deposit_create st d =
     (case deposit_findFirst st (dep_txHash d) of
        Some existing \<Rightarrow> Inl DuplicateTxHash
      | None \<Rightarrow> Inr (st\<lparr>deposits := deposits st @ [d]\<rparr>))"

text \<open>
  The body of the balance transaction: find the row of the user and currency; create it
  with the amount if there is none, increment it otherwise.
\<close>

definition credit_balance :: "store \<Rightarrow> nat \<Rightarrow> string \<Rightarrow> rat \<Rightarrow> store" where
  "credit_balance st userId currency amount =
     (case balances st (userId, currency) of
        None \<Rightarrow> st\<lparr>balances := (balances st)((userId, currency) \<mapsto> amount)\<rparr>
      | Some b \<Rightarrow> st\<lparr>balances := (balances st)((userId, currency) \<mapsto> b + amount)\<rparr>)"

section \<open>The deposit listeners\<close>

text \<open>
  \<^verbatim>\<open>src/blockchain/depositListeners/solana.ts\<close>, \<^verbatim>\<open>ethereum.ts\<close> and \<^verbatim>\<open>tron.ts\<close>
  share \<^verbatim>\<open>isTransactionProcessed\<close> and \<^verbatim>\<open>processDeposit\<close> up to the currency and the
  network they write. A candidate is a transfer already parsed from the chain, with the
  user whose address received it. (The Solana listener fetches and parses the transaction
  between the two calls; that touches neither the store nor the set of processed
  transactions.)
\<close>

record listener =
  l_currency :: string
  l_network :: string

definition solana_listener :: listener where
  "solana_listener = \<lparr>l_currency = ''SOL'', l_network = ''Solana''\<rparr>"

definition tron_listener :: listener where
  "tron_listener = \<lparr>l_currency = ''TRX'', l_network = ''Tron''\<rparr>"

definition ethereum_listener :: listener where
  "ethereum_listener = \<lparr>l_currency = ''ETH'', l_network = ''Ethereum''\<rparr>"

record candidate =
  c_userId :: nat
  c_txHash :: string
  c_fromAddress :: string
  c_toAddress :: string
  c_amount :: rat
  c_blockNumber :: int

text \<open>
  What the outside answers during one run of the listener on a candidate: whether the
  store rejects the lookup, the create or the balance transaction for a reason of its
  own, and the replies of the price service to the two conversions.
\<close>

record replies =
  find_fails :: bool
  rate_reply :: http_reply
  arrival_reply :: http_reply
  create_fails :: bool
  balance_fails :: bool

definition isTransactionProcessed ::
  "bool \<Rightarrow> store \<Rightarrow> string set \<Rightarrow> string \<Rightarrow> (error + bool) \<times> string set" where
  "isTransactionProcessed fails st processedTransactions txHash =
     (if txHash \<in> processedTransactions then (Inr True, processedTransactions)
      else if fails then (Inl StoreFailure, processedTransactions)
      else
        (case deposit_findFirst st txHash of
           Some existing \<Rightarrow> (Inr True, insert txHash processedTransactions)
         | None \<Rightarrow> (Inr False, processedTransactions)))"

text \<open>
  The first half of the exchange-rate block: \<open>rate\<close> starts as 1 and the first
  conversion replaces it unless it throws.
\<close>

definition rate_or_fallback :: "listener \<Rightarrow> http_reply \<Rightarrow> (error + jsnum)" where
  "rate_or_fallback l reply = convert unchanged reply (Fin 1) (js (l_currency l)) (js ''USD'')"

text \<open>
  The second half: \<open>realArrival\<close> starts as the amount and the second conversion
  replaces it unless it throws.
\<close>

definition arrival_or_fallback :: "listener \<Rightarrow> http_reply \<Rightarrow> rat \<Rightarrow> jsnum" where
  "arrival_or_fallback l reply amount =
     (case convert unchanged reply (Fin amount) (js (l_currency l)) (js ''USD'') of
        Inl e \<Rightarrow> Fin amount
      | Inr realArrival \<Rightarrow> realArrival)"

definition exchange_rate :: "listener \<Rightarrow> http_reply \<Rightarrow> http_reply \<Rightarrow> rat \<Rightarrow> jsnum \<times> jsnum" where
  "exchange_rate l reply1 reply2 amount =
     (case rate_or_fallback l reply1 of
        Inl e \<Rightarrow> (Fin 1, Fin amount)
      | Inr rate \<Rightarrow> (rate, arrival_or_fallback l reply2 amount))"

definition new_deposit :: "listener \<Rightarrow> candidate \<Rightarrow> jsnum \<Rightarrow> jsnum \<Rightarrow> deposit" where
  "new_deposit l c rate realArrival =
     \<lparr>dep_userId = c_userId c, dep_txHash = c_txHash c,
      dep_fromAddress = Some (c_fromAddress c), dep_toAddress = c_toAddress c,
      dep_currency = l_currency l, dep_network = l_network l, dep_amount = c_amount c,
      dep_rate = Some rate, dep_realArrival = Some realArrival, dep_status = Confirmed,
      dep_type = ''crypto'', dep_blockNumber = Some (c_blockNumber c),
      dep_confirmations = 1\<rparr>"

text \<open>
  \<^verbatim>\<open>processDeposit\<close>: the state is the store and the set
  \<^verbatim>\<open>processedTransactions\<close>; whatever is thrown is thrown again to the caller.
\<close>

definition processDeposit ::
  "listener \<Rightarrow> replies \<Rightarrow> store \<times> string set \<Rightarrow> candidate \<Rightarrow>
     (error + unit) \<times> (store \<times> string set)" where
  "processDeposit l env state c =
     (let st = fst state; processedTransactions = snd state;
          quote = exchange_rate l (rate_reply env) (arrival_reply env) (c_amount c);
          d = new_deposit l c (fst quote) (snd quote)
      in if create_fails env then (Inl StoreFailure, state)
         else
           (case deposit_create st d of
              Inl e \<Rightarrow> (Inl e, state)
            | Inr st1 \<Rightarrow>
                if balance_fails env then (Inl StoreFailure, (st1, processedTransactions))
                else
                  (Inr (),
                   (credit_balance st1 (c_userId c) (l_currency l) (c_amount c),
                    insert (c_txHash c) processedTransactions))))"

text \<open>
  The body of the loop of \<^verbatim>\<open>monitorSolanaAddress\<close> for one candidate: skip it when it
  is already processed, otherwise process it; an error of \<^verbatim>\<open>processDeposit\<close> is
  logged and the loop goes on.
\<close>

definition monitor_candidate ::
  "listener \<Rightarrow> replies \<Rightarrow> store \<times> string set \<Rightarrow> candidate \<Rightarrow> store \<times> string set" where
  "monitor_candidate l env state c =
     (case isTransactionProcessed (find_fails env) (fst state) (snd state) (c_txHash c) of
        (Inl e, seen) \<Rightarrow> (fst state, seen)
      | (Inr True, seen) \<Rightarrow> (fst state, seen)
      | (Inr False, seen) \<Rightarrow> snd (processDeposit l env (fst state, seen) c))"

section \<open>The listener, one await at a time\<close>

text \<open>
  Several runs of the listener on the same candidate may be under way at once: two timer
  cycles of one process, which share \<^verbatim>\<open>processedTransactions\<close>, or two processes,
  each with its own set, on one store. Between two awaits a run is not interrupted, and
  each call to the store takes effect at once when it is served. A task is such a run:
  the process it belongs to and the await it is suspended at.
\<close>

datatype pc =
    Start
  | AwaitFind
  | AwaitRate
  | AwaitArrival jsnum
  | AwaitCreate jsnum jsnum
  | AwaitBalance
  | Skipped
  | Done
  | Failed error

record task =
  t_proc :: nat
  t_pc :: pc

record system =
  sys_store :: store
  sys_seen :: "nat \<Rightarrow> string set"
  sys_tasks :: "task list"

text \<open>
  An event resumes one task: it says which, whether the store call the task awaits is
  rejected, and what the price service replies if the task awaits a conversion.
\<close>

record event =
  ev_task :: nat
  ev_store_fails :: bool
  ev_oracle :: http_reply

definition resume ::
  "listener \<Rightarrow> candidate \<Rightarrow> event \<Rightarrow> store \<Rightarrow> string set \<Rightarrow> pc \<Rightarrow> store \<times> string set \<times> pc" where
  "resume l c ev st seen p =
     (case p of
        Start \<Rightarrow>
          if c_txHash c \<in> seen then (st, seen, Skipped) else (st, seen, AwaitFind)
      | AwaitFind \<Rightarrow>
          if ev_store_fails ev then (st, seen, Failed StoreFailure)
          else
            (case deposit_findFirst st (c_txHash c) of
               Some existing \<Rightarrow> (st, insert (c_txHash c) seen, Skipped)
             | None \<Rightarrow> (st, seen, AwaitRate))
      | AwaitRate \<Rightarrow>
          (case rate_or_fallback l (ev_oracle ev) of
             Inl e \<Rightarrow> (st, seen, AwaitCreate (Fin 1) (Fin (c_amount c)))
           | Inr rate \<Rightarrow> (st, seen, AwaitArrival rate))
      | AwaitArrival rate \<Rightarrow>
          (st, seen, AwaitCreate rate (arrival_or_fallback l (ev_oracle ev) (c_amount c)))
      | AwaitCreate rate realArrival \<Rightarrow>
          if ev_store_fails ev then (st, seen, Failed StoreFailure)
          else
            (case deposit_create st (new_deposit l c rate realArrival) of
               Inl e \<Rightarrow> (st, seen, Failed e)
             | Inr st1 \<Rightarrow> (st1, seen, AwaitBalance))
      | AwaitBalance \<Rightarrow>
          if ev_store_fails ev then (st, seen, Failed StoreFailure)
          else
            (credit_balance st (c_userId c) (l_currency l) (c_amount c),
             insert (c_txHash c) seen, Done)
      | Skipped \<Rightarrow> (st, seen, Skipped)
      | Done \<Rightarrow> (st, seen, Done)
      | Failed e \<Rightarrow> (st, seen, Failed e))"

definition step :: "listener \<Rightarrow> candidate \<Rightarrow> system \<Rightarrow> event \<Rightarrow> system" where
  "step l c s ev =
     (if ev_task ev < length (sys_tasks s) then
        let t = sys_tasks s ! ev_task ev;
            r = resume l c ev (sys_store s) (sys_seen s (t_proc t)) (t_pc t)
        in \<lparr>sys_store = fst r,
            sys_seen = (sys_seen s)(t_proc t := fst (snd r)),
            sys_tasks = (sys_tasks s)[ev_task ev := t\<lparr>t_pc := snd (snd r)\<rparr>]\<rparr>
      else s)"

definition run :: "listener \<Rightarrow> candidate \<Rightarrow> system \<Rightarrow> event list \<Rightarrow> system" where
  "run l c s evs = foldl (step l c) s evs"

text \<open>
  A task that runs alone is resumed by what the outside answers to one run of the
  listener, in the order of its awaits; the second conversion is awaited only when the
  first has not thrown.
\<close>

definition served :: "bool \<Rightarrow> http_reply \<Rightarrow> event" where
  "served fails reply = \<lparr>ev_task = 0, ev_store_fails = fails, ev_oracle = reply\<rparr>"

definition alone_events :: "listener \<Rightarrow> replies \<Rightarrow> event list" where
  "alone_events l env =
     [served False (rate_reply env), served (find_fails env) (rate_reply env),
      served False (rate_reply env)]
     @ (case rate_or_fallback l (rate_reply env) of
          Inl e \<Rightarrow> []
        | Inr rate \<Rightarrow> [served False (arrival_reply env)])
     @ [served (create_fails env) (rate_reply env), served (balance_fails env) (rate_reply env)]"


definition recorded :: "store \<Rightarrow> string \<Rightarrow> nat" where
  "recorded st txHash = length (filter (\<lambda>d. dep_txHash d = txHash) (deposits st))"

definition credited :: "rat option \<Rightarrow> rat \<Rightarrow> rat option" where
  "credited before amount = (case before of None \<Rightarrow> Some amount | Some b \<Rightarrow> Some (b + amount))"

section \<open>The deposit pipeline of the database layer\<close>

text \<open>
  \<^verbatim>\<open>createDeposit\<close>, \<^verbatim>\<open>updateDepositStatus\<close>, \<^verbatim>\<open>depositExists\<close> and
  \<^verbatim>\<open>updateUserBalanceAfterDeposit\<close> of the deposits module of the database layer, and
  \<^verbatim>\<open>processSolanaTransaction\<close> of \<^verbatim>\<open>src/blockchain/solana-deposits.ts\<close>, which calls
  them in turn.
\<close>

record CreateDepositData =
  data_userId :: nat
  data_txHash :: string
  data_fromAddress :: "string option"
  data_toAddress :: string
  data_currency :: string
  data_network :: string
  data_amount :: rat
  data_blockNumber :: "int option"
  data_confirmations :: "nat option"

definition createDeposit ::
  "http_reply \<Rightarrow> bool \<Rightarrow> store \<Rightarrow> CreateDepositData \<Rightarrow> (error + deposit) \<times> store" where
  "createDeposit reply fails st data =
     (let quote =
            (if data_currency data \<noteq> ''USD'' then
               (case convert unchanged reply (Fin 1) (js (data_currency data)) (js ''USD'') of
                  Inl e \<Rightarrow> (None, None)
                | Inr rate \<Rightarrow> (Some rate, Some (js_mul (Fin (data_amount data)) rate)))
             else (Some (Fin 1), Some (Fin (data_amount data))));
          d = \<lparr>dep_userId = data_userId data, dep_txHash = data_txHash data,
               dep_fromAddress = data_fromAddress data, dep_toAddress = data_toAddress data,
               dep_currency = data_currency data, dep_network = data_network data,
               dep_amount = data_amount data, dep_rate = fst quote, dep_realArrival = snd quote,
               dep_status = Pending, dep_type = ''crypto'',
               dep_blockNumber = data_blockNumber data,
               dep_confirmations =
                 (case data_confirmations data of None \<Rightarrow> 0 | Some n \<Rightarrow> n)\<rparr>
      in if fails then (Inl StoreFailure, st)
         else
           (case deposit_create st d of
              Inl e \<Rightarrow> (Inl e, st)
            | Inr st1 \<Rightarrow> (Inr d, st1)))"

definition updateDepositStatus ::
  "bool \<Rightarrow> store \<Rightarrow> string \<Rightarrow> status \<Rightarrow> nat option \<Rightarrow> (error + unit) \<times> store" where
  "updateDepositStatus fails st h new_status new_confirmations =
     (if fails \<or> deposit_findFirst st h = None then (Inl StoreFailure, st)
      else
        (Inr (),
         st\<lparr>deposits :=
              map (\<lambda>d. if dep_txHash d = h
                        then d\<lparr>dep_status := new_status,
                               dep_confirmations :=
                                 (case new_confirmations of
                                    None \<Rightarrow> dep_confirmations d
                                  | Some n \<Rightarrow> n)\<rparr>
                        else d)
                (deposits st)\<rparr>))"

definition depositExists :: "bool \<Rightarrow> store \<Rightarrow> string \<Rightarrow> bool" where
  "depositExists fails st h = (if fails then False else 0 < recorded st h)"

definition updateUserBalanceAfterDeposit ::
  "bool \<Rightarrow> store \<Rightarrow> nat \<Rightarrow> string \<Rightarrow> rat \<Rightarrow> (error + unit) \<times> store" where
  "updateUserBalanceAfterDeposit fails st user cur amt =
     (if fails then (Inl StoreFailure, st) else (Inr (), credit_balance st user cur amt))"

record db_replies =
  exists_fails :: bool
  oracle_reply :: http_reply
  insert_fails :: bool
  update_fails :: bool
  credit_fails :: bool

text \<open>
  \<^verbatim>\<open>processSolanaTransaction\<close> for one user address that the transaction pays a
  positive amount: the signature, the user, the sender found, the address, the amount
  and the slot. Every error is caught and logged.
\<close>

definition processSolanaTransaction ::
  "db_replies \<Rightarrow> store \<Rightarrow> string \<Rightarrow> nat \<Rightarrow> string option \<Rightarrow> string \<Rightarrow> rat \<Rightarrow> int \<Rightarrow> store" where
  "processSolanaTransaction env st signature user sender address amt slot =
     (if depositExists (exists_fails env) st signature then st
      else
        (case createDeposit (oracle_reply env) (insert_fails env) st
                \<lparr>data_userId = user, data_txHash = signature, data_fromAddress = sender,
                 data_toAddress = address, data_currency = ''SOL'', data_network = ''Solana'',
                 data_amount = amt, data_blockNumber = Some slot,
                 data_confirmations = Some 1\<rparr> of
           (Inl e, st1) \<Rightarrow> st1
         | (Inr d, st1) \<Rightarrow>
             (case updateDepositStatus (update_fails env) st1 signature Confirmed (Some 1) of
                (Inl e, st2) \<Rightarrow> st2
              | (Inr u, st2) \<Rightarrow>
                  snd (updateUserBalanceAfterDeposit (credit_fails env) st2 user ''SOL'' amt))))"

text \<open>
  \<^verbatim>\<open>processEthereumTransaction\<close> of \<^verbatim>\<open>src/blockchain/ethereum-deposits.ts\<close> for one
  user address that the transaction pays a positive value. It asks the receipt for its
  confirmations twice, for the record and for the status update; each is a call to the
  provider and may fail. Every error is caught and logged.
\<close>

record eth_db_replies =
  store_replies :: db_replies
  confirmations_at_create :: "error + nat"
  confirmations_at_update :: "error + nat"

definition processEthereumTransaction ::
  "eth_db_replies \<Rightarrow> store \<Rightarrow> string \<Rightarrow> nat \<Rightarrow> string option \<Rightarrow> string \<Rightarrow> rat \<Rightarrow> int \<Rightarrow> store" where
  "processEthereumTransaction env st txHash user sender address amt blockNumber =
     (if depositExists (exists_fails (store_replies env)) st txHash then st
      else
        (case confirmations_at_create env of
           Inl e \<Rightarrow> st
         | Inr confirmations \<Rightarrow>
             (case createDeposit (oracle_reply (store_replies env))
                     (insert_fails (store_replies env)) st
                     \<lparr>data_userId = user, data_txHash = txHash, data_fromAddress = sender,
                      data_toAddress = address, data_currency = ''ETH'',
                      data_network = ''Ethereum'', data_amount = amt,
                      data_blockNumber = Some blockNumber,
                      data_confirmations = Some confirmations\<rparr> of
                (Inl e, st1) \<Rightarrow> st1
              | (Inr d, st1) \<Rightarrow>
                  (case confirmations_at_update env of
                     Inl e \<Rightarrow> st1
                   | Inr confirmed \<Rightarrow>
                       (case updateDepositStatus (update_fails (store_replies env)) st1 txHash
                               Confirmed (Some confirmed) of
                          (Inl e, st2) \<Rightarrow> st2
                        | (Inr u, st2) \<Rightarrow>
                            snd (updateUserBalanceAfterDeposit
                                   (credit_fails (store_replies env)) st2 user ''ETH'' amt))))))"

section \<open>What stays true while listener runs interleave\<close>








section \<open>Example inputs\<close>

definition no_effects :: effects where
  "no_effects = \<lparr>submitted = [], saved = [], debited = []\<rparr>"

text \<open>
  A Solana node whose main pool holds 10 SOL and 90 USDC and that accepts every transfer.
  The address \<open>Vault\<close> is well formed and not on the curve.
\<close>

definition pool_node :: solana_node where
  "pool_node =
     \<lparr>valid_address = (\<lambda>a. a \<in> {''MainPool'', ''Recipient'', ''Vault''}),
      associated_token_address =
        (\<lambda>a. if a = ''Vault'' then Inl TokenOwnerOffCurve else Inr (a @ ''-USDC'')),
      main_pool = ''MainPool'',
      pool_lamports = Inr 10000000000, token_account = (\<lambda>a. Inr 90000000),
      send = (\<lambda>i. Inr ''sig1'')\<rparr>"

text \<open>A Tron node whose main pool holds 90 USDT and that accepts every transfer.\<close>

definition tron_pool_node :: tron_node where
  "tron_pool_node =
     \<lparr>pool_usdt = 90, pool_trx = 1000, contract_at = Inr (),
      contract_transfer = (\<lambda>to raw. Inr ''tx1''),
      trx_send = (\<lambda>to raw. Inr (Some ''tx2''))\<rparr>"

text \<open>A Tron node whose main pool holds 90 USDT; a transfer of more than that is refused.\<close>

definition tron_short_node :: tron_node where
  "tron_short_node =
     \<lparr>pool_usdt = 90, pool_trx = 1000, contract_at = Inr (),
      contract_transfer = (\<lambda>to raw. if raw \<le> 90000000 then Inr ''tx1'' else Inl RpcFailure),
      trx_send = (\<lambda>to raw. Inr (Some ''tx2''))\<rparr>"

text \<open>A Tron client and an Ethereum provider whose every call fails.\<close>

definition down_client :: "nat tron_client" where
  "down_client = (\<lambda>address limit. Inl RpcFailure)"

definition down_provider :: "(nat, nat) eth_provider" where
  "down_provider =
     \<lparr>getBlockNumber = Inl RpcFailure, getLogs = (\<lambda>address fromBlock toBlock. Inl RpcFailure),
      getTransaction = (\<lambda>h. Inl RpcFailure), getTransactionReceipt = (\<lambda>h. Inl RpcFailure)\<rparr>"

text \<open>
  A Tron client that knows one transaction of the address, and an Ethereum provider with
  two logs of the address, each with its transaction and receipt.
\<close>

definition one_tx_client :: "nat tron_client" where
  "one_tx_client = (\<lambda>address limit. Inr (Some [(''tx1'', 1)]))"

definition two_log_provider :: "(nat, nat) eth_provider" where
  "two_log_provider =
     \<lparr>getBlockNumber = Inr 100, getLogs = (\<lambda>address fromBlock toBlock. Inr [''h1'', ''h2'']),
      getTransaction = (\<lambda>h. if h = ''h1'' then Inr (Some 1) else Inr (Some 2)),
      getTransactionReceipt = (\<lambda>h. if h = ''h1'' then Inr (Some 10) else Inr (Some 20))\<rparr>"

text \<open>The same provider when the fetch of the first transaction, or of its receipt, fails.\<close>

definition first_fetch_fails :: "(nat, nat) eth_provider" where
  "first_fetch_fails =
     two_log_provider
       \<lparr>getTransaction := (getTransaction two_log_provider)(''h1'' := Inl RpcFailure)\<rparr>"

definition first_receipt_fails :: "(nat, nat) eth_provider" where
  "first_receipt_fails =
     two_log_provider
       \<lparr>getTransactionReceipt :=
          (getTransactionReceipt two_log_provider)(''h1'' := Inl RpcFailure)\<rparr>"

text \<open>
  An empty store, a transfer of 5 SOL to an address of user 7, and what the outside may
  answer: all well with SOL at 150 USD, the price service down, the price service down
  for the second conversion only, the balance transaction rejected.
\<close>

definition empty_store :: store where
  "empty_store = \<lparr>deposits = [], balances = (\<lambda>k. None)\<rparr>"

definition five_sol :: candidate where
  "five_sol =
     \<lparr>c_userId = 7, c_txHash = ''sig5'', c_fromAddress = ''Sender'', c_toAddress = ''Address7'',
      c_amount = 5, c_blockNumber = 1000\<rparr>"

definition prices :: price_data where
  "prices = \<lparr>tron_usd = Fin (1 / 10), ethereum_usd = Fin 2000, solana_usd = Fin 150\<rparr>"

definition all_well :: replies where
  "all_well =
     \<lparr>find_fails = False, rate_reply = Inr prices, arrival_reply = Inr prices,
      create_fails = False, balance_fails = False\<rparr>"

definition oracle_down :: replies where
  "oracle_down =
     \<lparr>find_fails = False, rate_reply = Inl OracleUnavailable,
      arrival_reply = Inl OracleUnavailable, create_fails = False, balance_fails = False\<rparr>"

definition arrival_down :: replies where
  "arrival_down =
     \<lparr>find_fails = False, rate_reply = Inr prices, arrival_reply = Inl OracleUnavailable,
      create_fails = False, balance_fails = False\<rparr>"

definition balance_down :: replies where
  "balance_down =
     \<lparr>find_fails = False, rate_reply = Inr prices, arrival_reply = Inr prices,
      create_fails = False, balance_fails = True\<rparr>"

definition db_oracle_down :: db_replies where
  "db_oracle_down =
     \<lparr>exists_fails = False, oracle_reply = Inl OracleUnavailable, insert_fails = False,
      update_fails = False, credit_fails = False\<rparr>"

definition eth_db_oracle_down :: eth_db_replies where
  "eth_db_oracle_down =
     \<lparr>store_replies = db_oracle_down, confirmations_at_create = Inr 3,
      confirmations_at_update = Inr 4\<rparr>"


definition resume_ok :: "nat \<Rightarrow> event" where
  "resume_ok k = \<lparr>ev_task = k, ev_store_fails = False, ev_oracle = Inr prices\<rparr>"


definition two_processes :: "task list" where
  "two_processes = [\<lparr>t_proc = 0, t_pc = Start\<rparr>, \<lparr>t_proc = 1, t_pc = Start\<rparr>]"

definition one_then_other :: "event list" where
  "one_then_other = map resume_ok [0, 0, 0, 0, 0, 0, 1, 1]"


section \<open>Properties of the oracle\<close>

lemma of_char_below_256: "of_char (c::char) < (256::nat)"
  by (cases c) (simp add: of_char_def)

lemma toUpperCase_js: "toUpperCase tbl (js s) = toUpperCase unchanged (js s)"
  by (induction s) (simp_all add: js_def toUpperCase_def upper_point_def of_char_below_256)

lemma convert_latin1:
  "convert tbl reply a (js s) (js t) = convert unchanged reply a (js s) (js t)"
  unfolding convert_def toUpperCase_js [of tbl] by (rule refl)

lemma toUpperCase_supported: "k \<in> supported_symbols \<Longrightarrow> toUpperCase tbl k = k"
  by (auto simp: supported_symbols_def js_def toUpperCase_def upper_point_def
      latin1_upper_def)

lemma stable_supported: "k \<in> stable_symbols \<Longrightarrow> k \<in> supported_symbols"
  by (auto simp: stable_symbols_def supported_symbols_def)

lemma js_mul_one: "js_mul a (Fin 1) = a"
  by (cases a) simp_all

lemma js_div_one: "js_div a (Fin 1) = a"
  by (cases a) simp_all

lemma js_mul_NaN_right: "js_mul a NaN = NaN"
  by (cases a) simp_all

lemma js_div_NaN_right: "js_div a NaN = NaN"
  by (cases a) simp_all

lemma lookup_rate_stable: "symbol \<in> stable_symbols \<Longrightarrow> lookup_rate r symbol = Fin 1"
  by (auto simp: stable_symbols_def lookup_rate_def toUSDT_def js_def)

lemma lookup_rate_unsupported: "symbol \<notin> supported_symbols \<Longrightarrow> lookup_rate r symbol = NaN"
  by (simp add: supported_symbols_def lookup_rate_def toUSDT_def)

lemma convert_rejected: "convert tbl (Inl e) a s t = Inl e"
  by (simp add: convert_def getRate_def)

text \<open>
  The long s (U+017F) has the upper-case form S, so with the rate of 150 USD for one SOL
  five units of the symbol spelt with it are 750 USD: the symbol is a supported one.
\<close>

lemma convert_long_s:
  "convert (\<lambda>c. if c = 383 then [83] else [c])
     (Inr \<lparr>tron_usd = Fin (1/10), ethereum_usd = Fin 2000, solana_usd = Fin 150\<rparr>)
     (Fin 5) (383 # js ''ol'') (js ''usd'') = Inr (Fin 750)"
  by (simp add: convert_def getRate_def Let_def toUpperCase_def upper_point_def
      latin1_upper_def js_def lookup_rate_def toUSDT_def)

text \<open>
  Claim C8, as stated, fails: \<^verbatim>\<open>convert\<close> performs the rate request before it looks
  at the symbols, so when that request is rejected the conversion of 100 USD to USDT
  raises instead of returning 100.
\<close>

theorem convert_stable_pair_raises:
  "convert unchanged (Inl OracleUnavailable) (Fin 100) (js ''USD'') (js ''usdt'')
     = Inl OracleUnavailable"
  by (simp add: convert_def getRate_def)

text \<open>
  Claim C8, amended. The conversion is case-insensitive in its symbol arguments: for
  every amount \<open>a\<close> and symbols \<open>s, t\<close> whose upper-case forms are supported, the
  conversion of \<open>s, t\<close> equals the conversion of their upper-case forms, whatever the
  price service replies. USD, USDT and USDC are treated as 1:1: when the rate request
  succeeds, for every amount \<open>a\<close> and symbols \<open>s, t\<close> that are USD, USDT or USDC in any
  letter case, the conversion returns \<open>a\<close>. When the rate request is rejected the
  conversion raises that rejection, for every pair of symbols.
\<close>

theorem convert_case_insensitive_and_stable:
  "(toUpperCase tbl s \<in> supported_symbols \<longrightarrow> toUpperCase tbl t \<in> supported_symbols \<longrightarrow>
      convert tbl reply a s t = convert tbl reply a (toUpperCase tbl s) (toUpperCase tbl t))
   \<and> (toUpperCase tbl s \<in> stable_symbols \<longrightarrow> toUpperCase tbl t \<in> stable_symbols \<longrightarrow>
        convert tbl (Inr d) a s t = Inr a)
   \<and> convert tbl (Inl e) a s t = Inl e"
proof (intro conjI impI)
  assume s: "toUpperCase tbl s \<in> supported_symbols"
    and t: "toUpperCase tbl t \<in> supported_symbols"
  show "convert tbl reply a s t
          = convert tbl reply a (toUpperCase tbl s) (toUpperCase tbl t)"
    unfolding convert_def toUpperCase_supported [OF s] toUpperCase_supported [OF t]
    by (rule refl)
next
  assume "toUpperCase tbl s \<in> stable_symbols" "toUpperCase tbl t \<in> stable_symbols"
  then show "convert tbl (Inr d) a s t = Inr a"
    by (simp add: convert_def getRate_def Let_def lookup_rate_stable js_mul_one js_div_one)
next
  show "convert tbl (Inl e) a s t = Inl e"
    by (rule convert_rejected)
qed

theorem convert_case_insensitive_and_stable_witness:
  "toUpperCase unchanged (js ''usd'') = js ''USD''
   \<and> toUpperCase unchanged (js ''UsDc'') = js ''USDC''
   \<and> js ''USD'' \<in> stable_symbols \<and> js ''USDC'' \<in> stable_symbols
   \<and> convert unchanged
       (Inr \<lparr>tron_usd = Fin (1/10), ethereum_usd = Fin 2000, solana_usd = Fin 150\<rparr>)
       (Fin 100) (js ''usd'') (js ''UsDc'') = Inr (Fin 100)
   \<and> convert unchanged (Inl OracleUnavailable) (Fin 100) (js ''usd'') (js ''UsDc'')
       = convert unchanged (Inl OracleUnavailable) (Fin 100) (js ''USD'') (js ''USDC'')
   \<and> convert unchanged (Inl OracleUnavailable) (Fin 100) (js ''usd'') (js ''UsDc'')
       = Inl OracleUnavailable"
proof -
  have s: "toUpperCase unchanged (js ''usd'') = js ''USD''"
    by (simp add: toUpperCase_def upper_point_def latin1_upper_def js_def)
  have t: "toUpperCase unchanged (js ''UsDc'') = js ''USDC''"
    by (simp add: toUpperCase_def upper_point_def latin1_upper_def js_def)
  have m: "js ''USD'' \<in> stable_symbols" "js ''USDC'' \<in> stable_symbols"
    by (simp_all add: stable_symbols_def)
  from m have n: "js ''USD'' \<in> supported_symbols" "js ''USDC'' \<in> supported_symbols"
    by (simp_all add: stable_supported)
  from convert_case_insensitive_and_stable
    [of unchanged "js ''usd''" "js ''UsDc''" "Inl OracleUnavailable" "Fin 100"
        "\<lparr>tron_usd = Fin (1/10), ethereum_usd = Fin 2000, solana_usd = Fin 150\<rparr>"
        OracleUnavailable]
    s t m n
  show ?thesis by (simp add: convert_rejected)
qed

text \<open>
  Claim C10, as stated, fails: when the rate request is rejected the conversion from an
  unsupported symbol raises that rejection and returns no \<open>NaN\<close>.
\<close>

theorem convert_unsupported_raises:
  "convert unchanged (Inl OracleUnavailable) (Fin 5) (js ''doge'') (js ''usd'')
     = Inl OracleUnavailable"
  by (simp add: convert_def getRate_def)

text \<open>
  Claim C10, amended. For every amount and any symbol pair where either symbol, after
  uppercasing, lies outside the supported set TRX, ETH, SOL, USD, USDT, USDC: when the
  rate request succeeds, the conversion returns \<open>NaN\<close> rather than raising an error (the
  table lookup yields \<^verbatim>\<open>undefined\<close>, which the multiplication or the division turns
  into \<open>NaN\<close>); when the rate request is rejected, the conversion raises that rejection.
\<close>

theorem convert_unsupported_is_NaN:
  "toUpperCase tbl s \<notin> supported_symbols \<or> toUpperCase tbl t \<notin> supported_symbols \<Longrightarrow>
   convert tbl (Inr d) a s t = Inr NaN \<and> convert tbl (Inl e) a s t = Inl e"
  by (auto simp: convert_def getRate_def Let_def lookup_rate_unsupported
      js_mul_NaN_right js_div_NaN_right)

theorem convert_unsupported_is_NaN_witness:
  "toUpperCase unchanged (js ''doge'') = js ''DOGE''
   \<and> js ''DOGE'' \<notin> supported_symbols
   \<and> convert unchanged
       (Inr \<lparr>tron_usd = Fin (1/10), ethereum_usd = Fin 2000, solana_usd = Fin 150\<rparr>)
       (Fin 5) (js ''doge'') (js ''usd'') = Inr NaN
   \<and> convert unchanged (Inl RpcFailure) (Fin 5) (js ''doge'') (js ''usd'') = Inl RpcFailure"
proof -
  have u: "toUpperCase unchanged (js ''doge'') = js ''DOGE''"
    by (simp add: toUpperCase_def upper_point_def latin1_upper_def js_def)
  have h: "js ''DOGE'' \<notin> supported_symbols"
    by (simp add: supported_symbols_def js_def)
  from convert_unsupported_is_NaN
    [of unchanged "js ''doge''" "js ''usd''"
        "\<lparr>tron_usd = Fin (1/10), ethereum_usd = Fin 2000, solana_usd = Fin 150\<rparr>" "Fin 5"
        RpcFailure]
    u h
  show ?thesis by simp
qed

section \<open>Properties of the withdrawal engine\<close>

lemma floor_numeral_quotient:
  "\<lfloor>(numeral a :: rat) / numeral b\<rfloor> = numeral a div numeral b"
  using floor_divide_of_int_eq [of "numeral a" "numeral b", where ?'a = rat] by simp

lemma floor_one_quotient:
  "\<lfloor>(1 :: rat) / numeral b\<rfloor> = 1 div numeral b"
  using floor_divide_of_int_eq [of 1 "numeral b", where ?'a = rat] by simp

text \<open>
  Claim C4, at a failing input. A withdrawal of 1 SOL for user 7 from a pool of 10 SOL
  succeeds and returns the signature, and the row saved has amount \<open>- 1\<close> and type
  withdraw, as the claim says. The transfer handed to the chain, however, is for
  1005000000 lamports, the amount plus the fee of 0.005 SOL, not for the 1000000000
  lamports of the amount: the recipient is paid the fee on top.
\<close>

theorem withdrawSol_transfers_amount_plus_fee:
  "withdrawSol pool_node no_effects 7 ''Recipient'' 1 =
     (Inr ''sig1'',
      \<lparr>submitted = [SolTransfer ''Recipient'' 1005000000],
       saved = [\<lparr>row_userId = 7, row_address = ''Recipient'', row_amount = - 1,
                 row_currency = ''SOL'', row_txId = ''sig1'', row_type = ''withdraw''\<rparr>],
       debited = [(7, 1, ''SOL'')]\<rparr>)"
  by (simp add: withdrawSol_def pool_node_def no_effects_def isValidSolanaAddress_def Let_def
      SOL_WITHDRAWAL_FEE_def LAMPORTS_PER_SOL_def MIN_SOL_BALANCE_def round_down_def
      submit_def saveTransaction_def minusBalance_def)

text \<open>The same holds of the token withdrawal: 10 USDC are asked for, 11000000 base units move.\<close>

lemma withdrawUsdc_transfers_amount_plus_fee:
  "withdrawUsdc pool_node no_effects 7 ''Recipient'' 10 =
     (Inr ''sig1'',
      \<lparr>submitted = [UsdcTransfer ''Recipient-USDC'' 11000000],
       saved = [\<lparr>row_userId = 7, row_address = ''Recipient'', row_amount = - 10,
                 row_currency = ''USDC'', row_txId = ''sig1'', row_type = ''withdraw''\<rparr>],
       debited = [(7, 10, ''USDC'')]\<rparr>)"
  by (simp add: withdrawUsdc_def getUsdcBalance_def pool_node_def no_effects_def
      isValidSolanaAddress_def Let_def USDC_WITHDRAWAL_FEE_def MIN_USDC_BALANCE_def
      round_down_def submit_def saveTransaction_def minusBalance_def)

text \<open>
  In general: whenever \<^verbatim>\<open>withdrawSol\<close> returns a signature, the one instruction it has
  added is a transfer of the amount plus the fee, rounded down to lamports.
\<close>

lemma withdrawSol_success_submits_total:
  assumes "withdrawSol node w userId to amount = (Inr sig, w')"
  shows "submitted w' =
           submitted w @
             [SolTransfer to (round_down ((amount + SOL_WITHDRAWAL_FEE) * LAMPORTS_PER_SOL))]"
  using assms
  by (auto simp: withdrawSol_def Let_def submit_def saveTransaction_def minusBalance_def
      split: if_splits sum.splits)

lemma withdrawUsdc_success_submits_total:
  assumes "withdrawUsdc node w userId to amount = (Inr sig, w')"
  shows "\<exists>account. associated_token_address node to = Inr account
           \<and> (submitted w' = submitted w @
                 [UsdcTransfer account (round_down ((amount + USDC_WITHDRAWAL_FEE) * 1000000))]
              \<or> submitted w' = submitted w @
                 [CreateTokenAccount account,
                  UsdcTransfer account (round_down ((amount + USDC_WITHDRAWAL_FEE) * 1000000))])"
  using assms
  by (auto simp: withdrawUsdc_def Let_def submit_def saveTransaction_def minusBalance_def
      split: if_splits sum.splits)

text \<open>
  Claim C5 as stated fails on the Tron path. A withdrawal of 100 USDT against a pool of
  90 USDT is below any reserve, even with no fee and no reserve at all, yet
  \<^verbatim>\<open>withdrawTokenTron\<close> hands the transfer of 100000000 base units to the chain: it is
  the chain that refuses it, not a liquidity check made before submission.
\<close>

theorem withdrawTokenTron_submits_without_reserve_check:
  "pool_usdt tron_short_node - (100 + 0) < 0
   \<and> withdrawTokenTron tron_short_node no_effects 7 ''Recipient'' 100 =
       (Inl RpcFailure,
        \<lparr>submitted = [Trc20Transfer ''Recipient'' 100000000], saved = [], debited = []\<rparr>)"
  by (simp add: withdrawTokenTron_def tron_short_node_def no_effects_def Let_def
      round_half_up_def submit_def floor_numeral_quotient)

text \<open>
  No Tron withdrawal reads the pool: once the contract is loaded, the token transfer is
  handed to the chain whatever the amount.
\<close>

lemma withdrawTokenTron_always_submits:
  "contract_at node = Inr u \<Longrightarrow>
   submitted (snd (withdrawTokenTron node w userId to amount)) =
     submitted w @ [Trc20Transfer to (round_half_up (amount * 1000000))]"
  by (simp add: withdrawTokenTron_def Let_def submit_def saveTransaction_def
      split: sum.splits)

text \<open>
  Rounding towards zero never exceeds a whole number that the value does not exceed, so
  what is left after the transfer, counted in base units, is at least what the check
  found left.
\<close>

lemma round_down_le: "x \<le> of_int k \<Longrightarrow> round_down x \<le> k"
  by (simp add: round_down_def floor_le_iff ceiling_le_iff)

lemma getUsdcBalance_units:
  assumes "getUsdcBalance node address = Inr pool"
  shows "\<exists>units. pool = of_nat units / 1000000"
proof (cases "associated_token_address node address")
  case (Inl e)
  with assms show ?thesis by (simp add: getUsdcBalance_def split: if_splits)
next
  case (Inr account)
  show ?thesis
  proof (cases "token_account node account")
    case (Inl e)
    with assms Inr have "pool = of_nat 0 / 1000000"
      by (simp add: getUsdcBalance_def split: if_splits)
    then show ?thesis by blast
  next
    case (Inr units)
    with assms \<open>associated_token_address node address = Inr account\<close>
    have "pool = of_nat units / 1000000"
      by (simp add: getUsdcBalance_def split: if_splits)
    then show ?thesis by blast
  qed
qed

lemma usdc_left_after_transfer:
  assumes "MIN_USDC_BALANCE \<le> of_nat units / 1000000 - x"
  shows "MIN_USDC_BALANCE \<le> of_nat units / 1000000 - of_int (round_down (x * 1000000)) / 1000000"
proof -
  from assms have "x * 1000000 \<le> of_int (int units - 1000000)"
    by (simp add: MIN_USDC_BALANCE_def field_simps)
  then have "round_down (x * 1000000) \<le> int units - 1000000"
    by (rule round_down_le)
  then have "(of_int (round_down (x * 1000000)) :: rat) \<le> of_int (int units - 1000000)"
    by (simp only: of_int_le_iff)
  then show ?thesis
    by (simp add: MIN_USDC_BALANCE_def field_simps)
qed

lemma sol_left_after_transfer:
  assumes "MIN_SOL_BALANCE \<le> of_nat lamports / LAMPORTS_PER_SOL - x"
  shows "MIN_SOL_BALANCE \<le>
           (of_nat lamports - of_int (round_down (x * LAMPORTS_PER_SOL))) / LAMPORTS_PER_SOL"
proof -
  from assms have "x * 1000000000 \<le> of_int (int lamports - 10000000)"
    by (simp add: MIN_SOL_BALANCE_def LAMPORTS_PER_SOL_def field_simps)
  then have "round_down (x * 1000000000) \<le> int lamports - 10000000"
    by (rule round_down_le)
  then have "(of_int (round_down (x * 1000000000)) :: rat) \<le> of_int (int lamports - 10000000)"
    by (simp only: of_int_le_iff)
  then show ?thesis
    by (simp add: MIN_SOL_BALANCE_def LAMPORTS_PER_SOL_def field_simps)
qed

lemma withdrawSol_rejects_without_effects:
  assumes "pool_lamports node = Inr lamports"
    and "of_nat lamports / LAMPORTS_PER_SOL - (amount + SOL_WITHDRAWAL_FEE) < MIN_SOL_BALANCE"
  shows "withdrawSol node w userId to amount =
           (Inl (if \<not> isValidSolanaAddress node to then InvalidAddress
                 else if int lamports < round_down ((amount + SOL_WITHDRAWAL_FEE) * LAMPORTS_PER_SOL)
                 then InsufficientPoolBalance else InsufficientAfterWithdrawal), w)"
  using assms by (simp add: withdrawSol_def Let_def)

lemma withdrawUsdc_rejects_without_effects:
  assumes "getUsdcBalance node (main_pool node) = Inr pool"
    and "pool - (amount + USDC_WITHDRAWAL_FEE) < MIN_USDC_BALANCE"
  shows "withdrawUsdc node w userId to amount =
           (Inl (if \<not> isValidSolanaAddress node to then InvalidAddress
                 else case associated_token_address node to of
                        Inl e \<Rightarrow> e
                      | Inr account \<Rightarrow>
                          if pool < amount + USDC_WITHDRAWAL_FEE then InsufficientPoolBalance
                          else InsufficientAfterWithdrawal), w)"
  using assms
  by (auto simp: withdrawUsdc_def getUsdcBalance_def Let_def split: if_splits sum.splits)

lemma withdrawSol_success_left:
  assumes "withdrawSol node w userId to amount = (Inr sig, w')"
    and "pool_lamports node = Inr lamports"
  shows "MIN_SOL_BALANCE \<le> of_nat lamports / LAMPORTS_PER_SOL - (amount + SOL_WITHDRAWAL_FEE)"
  using assms
  by (auto simp: withdrawSol_def Let_def split: if_splits sum.splits)

lemma withdrawUsdc_success_left:
  assumes "withdrawUsdc node w userId to amount = (Inr sig, w')"
    and "getUsdcBalance node (main_pool node) = Inr pool"
  shows "MIN_USDC_BALANCE \<le> pool - (amount + USDC_WITHDRAWAL_FEE)"
  using assms
  by (auto simp: withdrawUsdc_def Let_def split: if_splits sum.splits)

text \<open>
  Claim C5, amended to the Solana withdrawals, the only ones with a fee and a minimum
  balance. When the balance read for the main pool (USDC for \<^verbatim>\<open>withdrawUsdc\<close>, the
  lamports in SOL for \<^verbatim>\<open>withdrawSol\<close>), less the amount and the fixed fee, is below
  the minimum balance, the request is rejected before any chain submission and with no
  ledger write, whatever the destination address; the error is one of the two
  insufficient-balance errors when the destination passes the address checks that come
  before the pool is read (a well-formed address, and for USDC one that has an
  associated token address). And after a completed withdrawal, the balance that was
  read, less what the one submitted transfer takes out of the pool, is still at least
  the minimum balance.
\<close>

theorem solana_withdrawal_rejected_below_reserve:
  "(getUsdcBalance node (main_pool node) = Inr pool \<longrightarrow>
      pool - (amount + USDC_WITHDRAWAL_FEE) < MIN_USDC_BALANCE \<longrightarrow>
      (\<exists>e. withdrawUsdc node w userId to amount = (Inl e, w))
      \<and> (isValidSolanaAddress node to \<longrightarrow> associated_token_address node to = Inr account \<longrightarrow>
           withdrawUsdc node w userId to amount \<in>
             {(Inl InsufficientPoolBalance, w), (Inl InsufficientAfterWithdrawal, w)}))
   \<and> (pool_lamports node = Inr lamports \<longrightarrow>
      of_nat lamports / LAMPORTS_PER_SOL - (amount + SOL_WITHDRAWAL_FEE) < MIN_SOL_BALANCE \<longrightarrow>
      (\<exists>e. withdrawSol node w userId to amount = (Inl e, w))
      \<and> (isValidSolanaAddress node to \<longrightarrow>
           withdrawSol node w userId to amount \<in>
             {(Inl InsufficientPoolBalance, w), (Inl InsufficientAfterWithdrawal, w)}))
   \<and> (getUsdcBalance node (main_pool node) = Inr pool \<longrightarrow>
      withdrawUsdc node w userId to amount = (Inr sig, w') \<longrightarrow>
      (\<exists>account created.
          submitted w' = submitted w @ created @
            [UsdcTransfer account (round_down ((amount + USDC_WITHDRAWAL_FEE) * 1000000))]
          \<and> created \<in> {[], [CreateTokenAccount account]})
      \<and> MIN_USDC_BALANCE \<le>
          pool - of_int (round_down ((amount + USDC_WITHDRAWAL_FEE) * 1000000)) / 1000000)
   \<and> (pool_lamports node = Inr lamports \<longrightarrow>
      withdrawSol node w userId to amount = (Inr sig, w') \<longrightarrow>
      submitted w' = submitted w @
        [SolTransfer to (round_down ((amount + SOL_WITHDRAWAL_FEE) * LAMPORTS_PER_SOL))]
      \<and> MIN_SOL_BALANCE \<le>
          (of_nat lamports
             - of_int (round_down ((amount + SOL_WITHDRAWAL_FEE) * LAMPORTS_PER_SOL)))
          / LAMPORTS_PER_SOL)"
proof (intro conjI impI)
  assume "getUsdcBalance node (main_pool node) = Inr pool"
    and "pool - (amount + USDC_WITHDRAWAL_FEE) < MIN_USDC_BALANCE"
  then show "\<exists>e. withdrawUsdc node w userId to amount = (Inl e, w)"
    by (simp add: withdrawUsdc_rejects_without_effects)
next
  assume "getUsdcBalance node (main_pool node) = Inr pool"
    and "pool - (amount + USDC_WITHDRAWAL_FEE) < MIN_USDC_BALANCE"
    and "isValidSolanaAddress node to" and "associated_token_address node to = Inr account"
  then show "withdrawUsdc node w userId to amount \<in>
          {(Inl InsufficientPoolBalance, w), (Inl InsufficientAfterWithdrawal, w)}"
    by (simp add: withdrawUsdc_rejects_without_effects)
next
  assume "pool_lamports node = Inr lamports"
    and "of_nat lamports / LAMPORTS_PER_SOL - (amount + SOL_WITHDRAWAL_FEE) < MIN_SOL_BALANCE"
  then show "\<exists>e. withdrawSol node w userId to amount = (Inl e, w)"
    by (simp add: withdrawSol_rejects_without_effects)
next
  assume "pool_lamports node = Inr lamports"
    and "of_nat lamports / LAMPORTS_PER_SOL - (amount + SOL_WITHDRAWAL_FEE) < MIN_SOL_BALANCE"
    and "isValidSolanaAddress node to"
  then show "withdrawSol node w userId to amount \<in>
          {(Inl InsufficientPoolBalance, w), (Inl InsufficientAfterWithdrawal, w)}"
    by (simp add: withdrawSol_rejects_without_effects)
next
  assume "withdrawUsdc node w userId to amount = (Inr sig, w')"
  from withdrawUsdc_success_submits_total [OF this]
  show "\<exists>account created.
          submitted w' = submitted w @ created @
            [UsdcTransfer account (round_down ((amount + USDC_WITHDRAWAL_FEE) * 1000000))]
          \<and> created \<in> {[], [CreateTokenAccount account]}"
    by auto
next
  assume b: "getUsdcBalance node (main_pool node) = Inr pool"
    and s: "withdrawUsdc node w userId to amount = (Inr sig, w')"
  from getUsdcBalance_units [OF b] obtain units where u: "pool = of_nat units / 1000000" ..
  from withdrawUsdc_success_left [OF s b] u
  show "MIN_USDC_BALANCE \<le>
          pool - of_int (round_down ((amount + USDC_WITHDRAWAL_FEE) * 1000000)) / 1000000"
    by (simp only: usdc_left_after_transfer)
next
  assume "withdrawSol node w userId to amount = (Inr sig, w')"
  then show "submitted w' = submitted w @
        [SolTransfer to (round_down ((amount + SOL_WITHDRAWAL_FEE) * LAMPORTS_PER_SOL))]"
    by (rule withdrawSol_success_submits_total)
next
  assume b: "pool_lamports node = Inr lamports"
    and s: "withdrawSol node w userId to amount = (Inr sig, w')"
  from withdrawSol_success_left [OF s b]
  show "MIN_SOL_BALANCE \<le>
          (of_nat lamports
             - of_int (round_down ((amount + SOL_WITHDRAWAL_FEE) * LAMPORTS_PER_SOL)))
          / LAMPORTS_PER_SOL"
    by (rule sol_left_after_transfer)
qed

text \<open>
  The scenario of the spec: 100 USDC asked of a pool of 90 USDC is refused as
  insufficient, with nothing sent and nothing written. Asked for an address that is not
  on the curve, the same withdrawal is refused for the address, before the pool is read.
\<close>

lemma withdrawUsdc_scenario:
  "withdrawUsdc pool_node no_effects 7 ''Recipient'' 100 =
     (Inl InsufficientPoolBalance, no_effects)
   \<and> withdrawUsdc pool_node no_effects 7 ''Vault'' 100 = (Inl TokenOwnerOffCurve, no_effects)
   \<and> getUsdcBalance pool_node ''Vault'' = Inl BalanceReadFailed"
  by (simp add: withdrawUsdc_def getUsdcBalance_def pool_node_def isValidSolanaAddress_def
      Let_def USDC_WITHDRAWAL_FEE_def)

theorem solana_withdrawal_rejected_below_reserve_witness:
  "getUsdcBalance pool_node (main_pool pool_node) = Inr 90
   \<and> (90::rat) - (100 + USDC_WITHDRAWAL_FEE) < MIN_USDC_BALANCE
   \<and> isValidSolanaAddress pool_node ''Recipient''
   \<and> associated_token_address pool_node ''Recipient'' = Inr ''Recipient-USDC''
   \<and> withdrawUsdc pool_node no_effects 7 ''Recipient'' 100 \<in>
       {(Inl InsufficientPoolBalance, no_effects), (Inl InsufficientAfterWithdrawal, no_effects)}
   \<and> (\<exists>e. withdrawUsdc pool_node no_effects 7 ''Vault'' 100 = (Inl e, no_effects))
   \<and> pool_lamports pool_node = Inr 10000000000
   \<and> of_nat 10000000000 / LAMPORTS_PER_SOL - (10 + SOL_WITHDRAWAL_FEE) < MIN_SOL_BALANCE
   \<and> withdrawSol pool_node no_effects 7 ''Recipient'' 10 \<in>
       {(Inl InsufficientPoolBalance, no_effects), (Inl InsufficientAfterWithdrawal, no_effects)}
   \<and> fst (withdrawUsdc pool_node no_effects 7 ''Recipient'' 10) = Inr ''sig1''
   \<and> MIN_USDC_BALANCE \<le> 90 - of_int (round_down ((10 + USDC_WITHDRAWAL_FEE) * 1000000)) / 1000000
   \<and> fst (withdrawSol pool_node no_effects 7 ''Recipient'' 1) = Inr ''sig1''
   \<and> MIN_SOL_BALANCE \<le>
       (of_nat 10000000000 - of_int (round_down ((1 + SOL_WITHDRAWAL_FEE) * LAMPORTS_PER_SOL)))
       / LAMPORTS_PER_SOL"
proof -
  have v: "isValidSolanaAddress pool_node ''Recipient''"
    by (simp add: isValidSolanaAddress_def pool_node_def)
  have a: "associated_token_address pool_node ''Recipient'' = Inr ''Recipient-USDC''"
    by (simp add: pool_node_def)
  have u: "getUsdcBalance pool_node (main_pool pool_node) = Inr 90"
    by (simp add: getUsdcBalance_def pool_node_def)
  have l: "pool_lamports pool_node = Inr 10000000000"
    by (simp add: pool_node_def)
  have b1: "(90::rat) - (100 + USDC_WITHDRAWAL_FEE) < MIN_USDC_BALANCE"
    by (simp add: USDC_WITHDRAWAL_FEE_def MIN_USDC_BALANCE_def)
  have b2: "of_nat 10000000000 / LAMPORTS_PER_SOL - (10 + SOL_WITHDRAWAL_FEE) < MIN_SOL_BALANCE"
    by (simp add: LAMPORTS_PER_SOL_def SOL_WITHDRAWAL_FEE_def MIN_SOL_BALANCE_def)
  obtain w1 where s1: "withdrawUsdc pool_node no_effects 7 ''Recipient'' 10 = (Inr ''sig1'', w1)"
    by (simp add: withdrawUsdc_transfers_amount_plus_fee)
  obtain w2 where s2: "withdrawSol pool_node no_effects 7 ''Recipient'' 1 = (Inr ''sig1'', w2)"
    by (simp add: withdrawSol_def pool_node_def no_effects_def isValidSolanaAddress_def Let_def
        SOL_WITHDRAWAL_FEE_def LAMPORTS_PER_SOL_def MIN_SOL_BALANCE_def round_down_def)
  note t1 = solana_withdrawal_rejected_below_reserve
    [where node = pool_node and pool = 90 and amount = 100 and w = no_effects and userId = 7
       and to = "''Recipient''" and account = "''Recipient-USDC''"
       and lamports = 10000000000 and sig = "''sig1''" and w' = w1]
  note t2 = solana_withdrawal_rejected_below_reserve
    [where node = pool_node and pool = 90 and amount = 100 and w = no_effects and userId = 7
       and to = "''Vault''" and account = "''Recipient-USDC''"
       and lamports = 10000000000 and sig = "''sig1''" and w' = w1]
  note t3 = solana_withdrawal_rejected_below_reserve
    [where node = pool_node and pool = 90 and amount = 10 and w = no_effects and userId = 7
       and to = "''Recipient''" and account = "''Recipient-USDC''"
       and lamports = 10000000000 and sig = "''sig1''" and w' = w1]
  note t4 = solana_withdrawal_rejected_below_reserve
    [where node = pool_node and pool = 90 and amount = 1 and w = no_effects and userId = 7
       and to = "''Recipient''" and account = "''Recipient-USDC''"
       and lamports = 10000000000 and sig = "''sig1''" and w' = w2]
  from t1 u b1 v a
  have r1: "withdrawUsdc pool_node no_effects 7 ''Recipient'' 100 \<in>
       {(Inl InsufficientPoolBalance, no_effects), (Inl InsufficientAfterWithdrawal, no_effects)}"
    by blast
  from t2 u b1
  have r2: "\<exists>e. withdrawUsdc pool_node no_effects 7 ''Vault'' 100 = (Inl e, no_effects)"
    by blast
  from t3 l b2 v
  have r3: "withdrawSol pool_node no_effects 7 ''Recipient'' 10 \<in>
       {(Inl InsufficientPoolBalance, no_effects), (Inl InsufficientAfterWithdrawal, no_effects)}"
    by blast
  from t3 u s1
  have r4: "MIN_USDC_BALANCE \<le>
      90 - of_int (round_down ((10 + USDC_WITHDRAWAL_FEE) * 1000000)) / 1000000"
    by blast
  from t4 l s2
  have r5: "MIN_SOL_BALANCE \<le>
       (of_nat 10000000000 - of_int (round_down ((1 + SOL_WITHDRAWAL_FEE) * LAMPORTS_PER_SOL)))
       / LAMPORTS_PER_SOL"
    by blast
  from s1 have f1: "fst (withdrawUsdc pool_node no_effects 7 ''Recipient'' 10) = Inr ''sig1''"
    by simp
  from s2 have f2: "fst (withdrawSol pool_node no_effects 7 ''Recipient'' 1) = Inr ''sig1''"
    by simp
  from u b1 v a r1 r2 l b2 r3 f1 r4 f2 r5 show ?thesis by blast
qed

text \<open>
  Claim C9, at a failing input. The amount \<open>5e-7\<close> TRX is not an integer, is positive
  and truncates to 0, so the claim has 0 Sun submitted. \<^verbatim>\<open>amount.toString()\<close> prints
  it as \<^verbatim>\<open>5e-7\<close>, of which \<^verbatim>\<open>parseInt\<close> reads the leading 5: five whole TRX,
  5000000 Sun, are handed to the chain, while the row saved has \<open>- 5e-7\<close>.
\<close>

theorem withdrawTrx_tiny_amount_sends_leading_digit:
  "value_of (Dec False [5] (- 6)) = 5 / 10000000
   \<and> \<lfloor>value_of (Dec False [5] (- 6))\<rfloor> * 1000000 = 0
   \<and> toString (Dec False [5] (- 6)) = ''5e-7''
   \<and> withdrawTrx tron_pool_node no_effects 7 ''Recipient'' (Dec False [5] (- 6)) =
       (Inr (),
        \<lparr>submitted = [TrxSend ''Recipient'' (Some 5000000)],
         saved = [\<lparr>row_userId = 7, row_address = ''Recipient'', row_amount = - (5 / 10000000),
                   row_currency = ''TRX'', row_txId = ''tx2'', row_type = ''withdraw''\<rparr>],
         debited = []\<rparr>)"
  by (simp add: withdrawTrx_def tron_pool_node_def no_effects_def Let_def parseInt_def
      positive_toString_def digit_char_def is_digit_def digit_of_def digits_value_def
      submit_def saveTransaction_def floor_one_quotient)

text \<open>An amount printed without an exponent is truncated: of 2.7 TRX, 2000000 Sun are sent.\<close>

lemma withdrawTrx_truncates:
  "toString (Dec False [2, 7] 1) = ''2.7''
   \<and> withdrawTrx tron_pool_node no_effects 7 ''Recipient'' (Dec False [2, 7] 1) =
       (Inr (),
        \<lparr>submitted = [TrxSend ''Recipient'' (Some 2000000)],
         saved = [\<lparr>row_userId = 7, row_address = ''Recipient'', row_amount = - (27 / 10),
                   row_currency = ''TRX'', row_txId = ''tx2'', row_type = ''withdraw''\<rparr>],
         debited = []\<rparr>)"
  by (simp add: withdrawTrx_def tron_pool_node_def no_effects_def Let_def parseInt_def
      positive_toString_def digit_char_def is_digit_def digit_of_def digits_value_def
      submit_def saveTransaction_def)

lemma below_ten: "d < 10 \<Longrightarrow> d \<in> {0, 1, 2, 3, 4, 5, 6, 7, 8, 9 :: nat}"
  by auto

lemma digit_char_facts:
  assumes "d < 10"
  shows "digit_of (digit_char d) = d" and "is_digit (digit_char d)"
    and "digit_char d \<noteq> CHR '' ''" and "digit_char d \<noteq> CHR ''-''"
    and "digit_char d \<noteq> CHR ''+''"
  using below_ten [OF assms]
  by (auto simp: digit_char_def digit_of_def is_digit_def)

lemma digits_value_snoc: "digits_value (ds @ [d]) = 10 * digits_value ds + d"
  by (simp add: digits_value_def)

lemma digits_value_append:
  "digits_value (xs @ ys) = digits_value xs * 10 ^ length ys + digits_value ys"
proof (induction ys rule: rev_induct)
  case Nil
  show ?case by (simp add: digits_value_def)
next
  case (snoc y ys)
  have "digits_value (xs @ ys @ [y]) = 10 * digits_value (xs @ ys) + y"
    using digits_value_snoc [of "xs @ ys" y] by simp
  with snoc show ?case by (simp add: digits_value_snoc algebra_simps)
qed

lemma digits_value_bound: "\<forall>d \<in> set ds. d < 10 \<Longrightarrow> digits_value ds < 10 ^ length ds"
proof (induction ds rule: rev_induct)
  case Nil
  show ?case by (simp add: digits_value_def)
next
  case (snoc d ds)
  then have "digits_value ds < 10 ^ length ds" and "d < 10" by simp_all
  then have "10 * digits_value ds + d < 10 * 10 ^ length ds" by arith
  then show ?case by (simp add: digits_value_snoc)
qed

lemma digits_value_take:
  assumes "\<forall>d \<in> set ds. d < 10"
  shows "digits_value (take m ds) = digits_value ds div 10 ^ (length ds - m)"
proof -
  have b: "digits_value (drop m ds) < 10 ^ length (drop m ds)"
    using assms by (intro digits_value_bound) (auto dest: in_set_dropD)
  have "digits_value ds = digits_value (take m ds) * 10 ^ length (drop m ds) + digits_value (drop m ds)"
    using digits_value_append [of "take m ds" "drop m ds"] by simp
  with b show ?thesis by simp
qed

lemma digits_read_back:
  "\<forall>d \<in> set ds. d < 10 \<Longrightarrow> map digit_of (map digit_char ds) = ds"
  by (induction ds) (simp_all add: digit_char_facts)

lemma takeWhile_digits:
  "\<forall>d \<in> set ds. d < 10 \<Longrightarrow>
   takeWhile is_digit (map digit_char ds @ CHR ''.'' # rest) = map digit_char ds"
proof (induction ds)
  case Nil
  show ?case by (simp add: is_digit_def)
next
  case (Cons d ds)
  then show ?case by (simp add: digit_char_facts)
qed

lemma floor_digits_quotient:
  "\<lfloor>(of_nat a :: rat) / 10 ^ m\<rfloor> = int (a div 10 ^ m)"
proof -
  have "(of_nat a :: rat) / 10 ^ m = of_nat a / of_nat (10 ^ m)" by simp
  then show ?thesis by (simp only: floor_divide_of_nat_eq)
qed

text \<open>
  Where the truncation holds: a positive amount with a fractional part that is at least
  \<open>10\<^sup>-\<^sup>6\<close> is printed without an exponent, and \<^verbatim>\<open>parseInt\<close> reads its integer part.
\<close>

lemma parseInt_toString_truncates:
  assumes digits: "ds \<noteq> []" "\<forall>d \<in> set ds. d < 10"
    and range: "- 6 < n" "n < int (length ds)" "n \<le> 21"
  shows "parseInt (toString (Dec False ds n)) = Some \<lfloor>value_of (Dec False ds n)\<rfloor>"
proof (cases "0 < n")
  case True
  define m where "m = nat n"
  have m: "0 < m" "m < length ds" "n = int m" using True range by (simp_all add: m_def)
  obtain d rest where ds: "ds = d # rest" using digits(1) by (cases ds) auto
  then have d: "d < 10" using digits(2) by simp
  have str: "toString (Dec False ds n) =
      map digit_char (take m ds) @ CHR ''.'' # map digit_char (drop m ds)"
    using m range by (simp add: positive_toString_def Let_def take_map drop_map)
  obtain m' where m': "m = Suc m'" using m(1) by (cases m) auto
  have hd: "map digit_char (take m ds) = digit_char d # map digit_char (take m' rest)"
    by (simp add: ds m')
  have small: "\<forall>x \<in> set (take m ds). x < 10" using digits(2) by (auto dest: in_set_takeD)
  have tw: "takeWhile is_digit (map digit_char (take m ds) @ CHR ''.'' # map digit_char (drop m ds))
      = map digit_char (take m ds)"
    using takeWhile_digits [OF small] .
  have "parseInt (toString (Dec False ds n)) = Some (int (digits_value (take m ds)))"
    unfolding str parseInt_def
    using tw digit_char_facts [OF d] digits_read_back [OF small]
    by (simp add: hd Let_def)
  moreover have "\<lfloor>value_of (Dec False ds n)\<rfloor> = int (digits_value (take m ds))"
  proof -
    have "value_of (Dec False ds n) = of_nat (digits_value ds) / 10 ^ (length ds - m)"
      using m by (simp add: not_le) (simp add: nat_diff_distrib')
    then show ?thesis
      by (simp only: floor_digits_quotient digits_value_take [OF digits(2)])
  qed
  ultimately show ?thesis by simp
next
  case False
  define z where "z = nat (- n)"
  have z: "n = - int z" using False by (simp add: z_def)
  have str: "toString (Dec False ds n) =
      CHR ''0'' # CHR ''.'' # replicate z CHR ''0'' @ map digit_char ds"
    using False range digits(1) by (simp add: positive_toString_def Let_def z_def)
  have p: "parseInt (toString (Dec False ds n)) = Some 0"
    unfolding str parseInt_def
    by (simp add: Let_def is_digit_def digit_of_def digits_value_def)
  have b: "digits_value ds < 10 ^ length ds" using digits_value_bound [OF digits(2)] .
  have "0 < length ds" using digits(1) by simp
  then have "\<not> int (length ds) \<le> - int z" by linarith
  then have v: "value_of (Dec False ds n) = of_nat (digits_value ds) / 10 ^ (length ds + z)"
    using z by (simp add: nat_add_distrib)
  have "digits_value ds div 10 ^ (length ds + z) = 0"
    using b by (simp add: power_add) (metis div_less less_le_trans mult.right_neutral
        mult_le_mono2 one_le_numeral one_le_power)
  then have "\<lfloor>value_of (Dec False ds n)\<rfloor> = 0"
    unfolding v by (simp only: floor_digits_quotient)
  with p show ?thesis by simp
qed

lemma withdrawTrx_truncates_above_micro:
  assumes "ds \<noteq> []" "\<forall>d \<in> set ds. d < 10" "- 6 < n" "n < int (length ds)" "n \<le> 21"
  shows "submitted (snd (withdrawTrx node w userId to (Dec False ds n))) =
           submitted w @ [TrxSend to (Some (\<lfloor>value_of (Dec False ds n)\<rfloor> * 1000000))]"
  by (simp add: withdrawTrx_def Let_def parseInt_toString_truncates [OF assms] submit_def
      saveTransaction_def del: toString.simps value_of.simps split: sum.splits option.splits)

section \<open>Properties of the listings and of the pollers\<close>

text \<open>
  Claim C6 as stated fails. With both Tron clients failing, the listing returns the empty
  list, which the poller cannot tell from an address without transactions; no failure
  reaches it.
\<close>

theorem getRecentTransactions_tron_failure_is_empty:
  "getRecentTransactions_tron (Some down_client) (Some down_client) ''TAddress'' 20 = Inr []"
  by (simp add: getRecentTransactions_tron_def related_def down_client_def)

lemma getRecentTransactions_ethereum_failure_is_empty:
  "getRecentTransactions_ethereum down_provider ''0xAddress'' 0 = Inr []
   \<and> getRecentTransactionsForAddress down_provider ''0xAddress'' 0 100 = Inr []"
  by (simp add: getRecentTransactions_ethereum_def getRecentTransactionsForAddress_def
      down_provider_def)

lemma fetch_transactions_failure_as_null:
  "getTransaction provider h = Inl e \<Longrightarrow>
   fetch_transactions provider logs
     = fetch_transactions
         (provider\<lparr>getTransaction := (getTransaction provider)(h := Inr None)\<rparr>) logs"
  by (induction logs) (auto split: sum.splits option.splits)

lemma fetch_with_receipts_failure_as_null:
  "getTransaction provider h = Inl e \<Longrightarrow>
   fetch_with_receipts provider logs
     = fetch_with_receipts
         (provider\<lparr>getTransaction := (getTransaction provider)(h := Inr None)\<rparr>) logs"
  by (induction logs) (auto split: sum.splits option.splits)

lemma fetch_with_receipts_receipt_failure_as_null:
  "getTransactionReceipt provider h = Inl e \<Longrightarrow>
   fetch_with_receipts provider logs
     = fetch_with_receipts
         (provider\<lparr>getTransactionReceipt := (getTransactionReceipt provider)(h := Inr None)\<rparr>)
         logs"
  by (induction logs) (auto split: sum.splits option.splits)

text \<open>
  Claim C6, amended. When a chain RPC call made while listing an address's recent
  transactions fails, the failure never reaches the poller: each of the three listings
  returns a list, and it is the list it returns when that call answers that it found
  nothing. The list is empty when the block number or the logs cannot be read; a Tron
  client whose call fails counts as one that answers with no transactions, and a
  transaction or a receipt whose fetch fails counts as one that does not exist, so what
  the other calls supplied stays in the list.
\<close>

theorem listings_turn_failure_into_empty:
  "getRecentTransactions_tron tronWebShasta tronWebMainnet address limit \<noteq> Inl e
   \<and> getRecentTransactions_ethereum provider address fromBlock \<noteq> Inl e
   \<and> getRecentTransactionsForAddress provider address fromBlock toBlock \<noteq> Inl e
   \<and> (shasta address limit = Inl e1 \<longrightarrow>
        getRecentTransactions_tron (Some shasta) tronWebMainnet address limit
          = getRecentTransactions_tron (Some (\<lambda>a n. Inr (Some []))) tronWebMainnet address limit)
   \<and> (mainnet address limit = Inl e1 \<longrightarrow>
        getRecentTransactions_tron tronWebShasta (Some mainnet) address limit
          = getRecentTransactions_tron tronWebShasta (Some (\<lambda>a n. Inr (Some []))) address limit)
   \<and> (shasta address limit = Inl e1 \<longrightarrow> mainnet address limit = Inl e2 \<longrightarrow>
        getRecentTransactions_tron (Some shasta) (Some mainnet) address limit = Inr [])
   \<and> (getBlockNumber provider = Inl e1 \<longrightarrow>
        getRecentTransactions_ethereum provider address fromBlock = Inr [])
   \<and> (getBlockNumber provider = Inr currentBlock \<longrightarrow>
        getLogs provider address fromBlock (min currentBlock (fromBlock + 1000)) = Inl e1 \<longrightarrow>
        getRecentTransactions_ethereum provider address fromBlock = Inr [])
   \<and> (getLogs provider address fromBlock toBlock = Inl e1 \<longrightarrow>
        getRecentTransactionsForAddress provider address fromBlock toBlock = Inr [])
   \<and> (getTransaction provider h = Inl e1 \<longrightarrow>
        getRecentTransactions_ethereum provider address fromBlock
          = getRecentTransactions_ethereum
              (provider\<lparr>getTransaction := (getTransaction provider)(h := Inr None)\<rparr>) address
              fromBlock)
   \<and> (getTransaction provider h = Inl e1 \<longrightarrow>
        getRecentTransactionsForAddress provider address fromBlock toBlock
          = getRecentTransactionsForAddress
              (provider\<lparr>getTransaction := (getTransaction provider)(h := Inr None)\<rparr>) address
              fromBlock toBlock)
   \<and> (getTransactionReceipt provider h = Inl e1 \<longrightarrow>
        getRecentTransactionsForAddress provider address fromBlock toBlock
          = getRecentTransactionsForAddress
              (provider\<lparr>getTransactionReceipt := (getTransactionReceipt provider)(h := Inr None)\<rparr>)
              address fromBlock toBlock)"
proof (intro conjI impI)
  show "getRecentTransactions_tron tronWebShasta tronWebMainnet address limit \<noteq> Inl e"
    by (simp add: getRecentTransactions_tron_def Let_def)
  show "getRecentTransactions_ethereum provider address fromBlock \<noteq> Inl e"
    by (simp add: getRecentTransactions_ethereum_def Let_def split: sum.splits)
  show "getRecentTransactionsForAddress provider address fromBlock toBlock \<noteq> Inl e"
    by (simp add: getRecentTransactionsForAddress_def split: sum.splits)
  show "getRecentTransactions_tron (Some shasta) tronWebMainnet address limit
          = getRecentTransactions_tron (Some (\<lambda>a n. Inr (Some []))) tronWebMainnet address limit"
    if "shasta address limit = Inl e1"
    using that by (simp add: getRecentTransactions_tron_def related_def)
  show "getRecentTransactions_tron tronWebShasta (Some mainnet) address limit
          = getRecentTransactions_tron tronWebShasta (Some (\<lambda>a n. Inr (Some []))) address limit"
    if "mainnet address limit = Inl e1"
    using that by (simp add: getRecentTransactions_tron_def related_def)
  show "getRecentTransactions_tron (Some shasta) (Some mainnet) address limit = Inr []"
    if "shasta address limit = Inl e1" and "mainnet address limit = Inl e2"
    using that by (simp add: getRecentTransactions_tron_def related_def)
  show "getRecentTransactions_ethereum provider address fromBlock = Inr []"
    if "getBlockNumber provider = Inl e1"
    using that by (simp add: getRecentTransactions_ethereum_def)
  show "getRecentTransactions_ethereum provider address fromBlock = Inr []"
    if "getBlockNumber provider = Inr currentBlock"
      and "getLogs provider address fromBlock (min currentBlock (fromBlock + 1000)) = Inl e1"
    using that by (simp add: getRecentTransactions_ethereum_def Let_def)
  show "getRecentTransactionsForAddress provider address fromBlock toBlock = Inr []"
    if "getLogs provider address fromBlock toBlock = Inl e1"
    using that by (simp add: getRecentTransactionsForAddress_def)
  show "getRecentTransactions_ethereum provider address fromBlock
          = getRecentTransactions_ethereum
              (provider\<lparr>getTransaction := (getTransaction provider)(h := Inr None)\<rparr>) address
              fromBlock"
    if "getTransaction provider h = Inl e1"
    using fetch_transactions_failure_as_null [OF that]
    by (simp add: getRecentTransactions_ethereum_def Let_def split: sum.splits)
  show "getRecentTransactionsForAddress provider address fromBlock toBlock
          = getRecentTransactionsForAddress
              (provider\<lparr>getTransaction := (getTransaction provider)(h := Inr None)\<rparr>) address
              fromBlock toBlock"
    if "getTransaction provider h = Inl e1"
    using fetch_with_receipts_failure_as_null [OF that]
    by (simp add: getRecentTransactionsForAddress_def split: sum.splits)
  show "getRecentTransactionsForAddress provider address fromBlock toBlock
          = getRecentTransactionsForAddress
              (provider\<lparr>getTransactionReceipt := (getTransactionReceipt provider)(h := Inr None)\<rparr>)
              address fromBlock toBlock"
    if "getTransactionReceipt provider h = Inl e1"
    using fetch_with_receipts_receipt_failure_as_null [OF that]
    by (simp add: getRecentTransactionsForAddress_def split: sum.splits)
qed

text \<open>
  So a listing made while some call fails need not be empty. With the Shasta client
  failing, the transaction that the Mainnet client knows is listed; with the fetch of the
  first of two transactions, or of its receipt, failing, the second is listed.
\<close>

theorem listings_turn_failure_into_empty_witness:
  "down_client ''TAddress'' 20 = Inl RpcFailure
   \<and> getRecentTransactions_tron (Some down_client) (Some one_tx_client) ''TAddress'' 20
       = Inr [(''tx1'', 1)]
   \<and> getTransaction first_fetch_fails ''h1'' = Inl RpcFailure
   \<and> getRecentTransactions_ethereum first_fetch_fails ''0xAddress'' 0 = Inr [2]
   \<and> getRecentTransactionsForAddress first_fetch_fails ''0xAddress'' 0 100 = Inr [(2, 20)]
   \<and> getTransactionReceipt first_receipt_fails ''h1'' = Inl RpcFailure
   \<and> getRecentTransactionsForAddress first_receipt_fails ''0xAddress'' 0 100 = Inr [(2, 20)]
   \<and> getRecentTransactions_ethereum two_log_provider ''0xAddress'' 0 = Inr [1, 2]"
proof -
  have h1: "down_client ''TAddress'' 20 = Inl RpcFailure"
    by (simp add: down_client_def)
  have h2: "getTransaction first_fetch_fails ''h1'' = Inl RpcFailure"
    by (simp add: first_fetch_fails_def)
  have h3: "getTransactionReceipt first_receipt_fails ''h1'' = Inl RpcFailure"
    by (simp add: first_receipt_fails_def)
  note t = listings_turn_failure_into_empty
    [where shasta = down_client and ?e1.0 = RpcFailure and tronWebMainnet = "Some one_tx_client"
       and address = "''TAddress''" and limit = 20]
  note u = listings_turn_failure_into_empty
    [where provider = first_fetch_fails and ?e1.0 = RpcFailure and h = "''h1''"
       and address = "''0xAddress''" and fromBlock = 0 and toBlock = 100]
  note v = listings_turn_failure_into_empty
    [where provider = first_receipt_fails and ?e1.0 = RpcFailure and h = "''h1''"
       and address = "''0xAddress''" and fromBlock = 0 and toBlock = 100]
  from t h1
  have a: "getRecentTransactions_tron (Some down_client) (Some one_tx_client) ''TAddress'' 20
      = getRecentTransactions_tron (Some (\<lambda>a n. Inr (Some []))) (Some one_tx_client)
          ''TAddress'' 20"
    by blast
  from u h2
  have b: "getRecentTransactions_ethereum first_fetch_fails ''0xAddress'' 0
      = getRecentTransactions_ethereum
          (first_fetch_fails
             \<lparr>getTransaction := (getTransaction first_fetch_fails)(''h1'' := Inr None)\<rparr>)
          ''0xAddress'' 0"
    by blast
  from u h2
  have c: "getRecentTransactionsForAddress first_fetch_fails ''0xAddress'' 0 100
      = getRecentTransactionsForAddress
          (first_fetch_fails
             \<lparr>getTransaction := (getTransaction first_fetch_fails)(''h1'' := Inr None)\<rparr>)
          ''0xAddress'' 0 100"
    by blast
  from v h3
  have d: "getRecentTransactionsForAddress first_receipt_fails ''0xAddress'' 0 100
      = getRecentTransactionsForAddress
          (first_receipt_fails
             \<lparr>getTransactionReceipt :=
                (getTransactionReceipt first_receipt_fails)(''h1'' := Inr None)\<rparr>)
          ''0xAddress'' 0 100"
    by blast
  have a': "getRecentTransactions_tron (Some down_client) (Some one_tx_client) ''TAddress'' 20
       = Inr [(''tx1'', 1)]"
    unfolding a by (simp add: getRecentTransactions_tron_def related_def one_tx_client_def)
  have b': "getRecentTransactions_ethereum first_fetch_fails ''0xAddress'' 0 = Inr [2]"
    unfolding b
    by (simp add: getRecentTransactions_ethereum_def first_fetch_fails_def two_log_provider_def)
  have c': "getRecentTransactionsForAddress first_fetch_fails ''0xAddress'' 0 100 = Inr [(2, 20)]"
    unfolding c
    by (simp add: getRecentTransactionsForAddress_def first_fetch_fails_def two_log_provider_def)
  have d': "getRecentTransactionsForAddress first_receipt_fails ''0xAddress'' 0 100
       = Inr [(2, 20)]"
    unfolding d
    by (simp add: getRecentTransactionsForAddress_def first_receipt_fails_def
        two_log_provider_def)
  have e': "getRecentTransactions_ethereum two_log_provider ''0xAddress'' 0 = Inr [1, 2]"
    by (simp add: getRecentTransactions_ethereum_def two_log_provider_def)
  from h1 a' h2 b' c' h3 d' e' show ?thesis by blast
qed

text \<open>
  Claim C7 as stated fails on the listener of
  \<^verbatim>\<open>src/blockchain/depositListeners/solana.ts\<close>: two timer ticks in a row, the second
  while the first cycle is still running, leave two cycles in flight and none skipped.
\<close>

theorem monitorSolanaDeposits_overlaps:
  "in_flight (foldl listener_step idle [Invoke, Invoke]) = 2
   \<and> skipped (foldl listener_step idle [Invoke, Invoke]) = 0"
  by (simp add: idle_def monitorSolanaDeposits_def)

lemma guarded_invariant:
  "in_flight p \<le> 1 \<Longrightarrow> isPolling p = (in_flight p = 1) \<Longrightarrow> stops_between_cycles p evs \<Longrightarrow>
   in_flight (foldl guarded_step p evs) \<le> 1
   \<and> isPolling (foldl guarded_step p evs) = (in_flight (foldl guarded_step p evs) = 1)"
proof (induction evs arbitrary: p)
  case Nil
  then show ?case by simp
next
  case (Cons ev evs)
  show ?case
  proof (cases ev)
    case Invoke
    with Cons.prems have "in_flight (guarded_step p ev) \<le> 1"
      and "isPolling (guarded_step p ev) = (in_flight (guarded_step p ev) = 1)"
      and "stops_between_cycles (guarded_step p ev) evs"
      by (auto simp: pollForDeposits_def)
    from Cons.IH [OF this] show ?thesis by simp
  next
    case Complete
    with Cons.prems have "in_flight (guarded_step p ev) \<le> 1"
      and "isPolling (guarded_step p ev) = (in_flight (guarded_step p ev) = 1)"
      and "stops_between_cycles (guarded_step p ev) evs"
      by (auto simp: pollForDeposits_finally_def)
    from Cons.IH [OF this] show ?thesis by simp
  next
    case Stop
    with Cons.prems have "in_flight (guarded_step p ev) \<le> 1"
      and "isPolling (guarded_step p ev) = (in_flight (guarded_step p ev) = 1)"
      and "stops_between_cycles (guarded_step p ev) evs"
      by (auto simp: stopSolanaDepositMonitoring_def)
    from Cons.IH [OF this] show ?thesis by simp
  qed
qed

text \<open>
  Claim C7, amended to the pollers that have the flag, \<^verbatim>\<open>pollForDeposits\<close> of
  \<^verbatim>\<open>solana-deposits.ts\<close> and of \<^verbatim>\<open>ethereum-deposits.ts\<close>. After any sequence of
  timer ticks, cycle ends and calls of the stop function in which the stop function is
  not called while a cycle runs, at most one scan cycle is in flight, and if one is, a
  further invocation returns at once: it starts nothing and is only counted as skipped.
\<close>

theorem pollForDeposits_single_flight:
  assumes "stops_between_cycles idle evs"
  shows "in_flight (foldl guarded_step idle evs) \<le> 1
       \<and> (in_flight (foldl guarded_step idle evs) = 1 \<longrightarrow>
            pollForDeposits (foldl guarded_step idle evs) =
              (foldl guarded_step idle evs)
                \<lparr>skipped := skipped (foldl guarded_step idle evs) + 1\<rparr>)"
proof -
  have "in_flight idle \<le> 1" and "isPolling idle = (in_flight idle = 1)"
    by (simp_all add: idle_def)
  from guarded_invariant [OF this assms] show ?thesis
    by (simp add: pollForDeposits_def)
qed

theorem pollForDeposits_single_flight_witness:
  "stops_between_cycles idle [Stop, Invoke, Invoke, Complete, Stop, Invoke, Invoke]
   \<and> in_flight (foldl guarded_step idle [Stop, Invoke, Invoke, Complete, Stop, Invoke, Invoke])
       = 1
   \<and> started (foldl guarded_step idle [Stop, Invoke, Invoke, Complete, Stop, Invoke, Invoke]) = 2
   \<and> skipped (foldl guarded_step idle [Stop, Invoke, Invoke, Complete, Stop, Invoke, Invoke]) = 2
   \<and> pollForDeposits
         (foldl guarded_step idle [Stop, Invoke, Invoke, Complete, Stop, Invoke, Invoke]) =
       (foldl guarded_step idle [Stop, Invoke, Invoke, Complete, Stop, Invoke, Invoke])
         \<lparr>skipped :=
            skipped (foldl guarded_step idle [Stop, Invoke, Invoke, Complete, Stop, Invoke, Invoke])
              + 1\<rparr>"
proof -
  have h: "stops_between_cycles idle [Stop, Invoke, Invoke, Complete, Stop, Invoke, Invoke]"
    by (simp add: idle_def pollForDeposits_def pollForDeposits_finally_def
        stopSolanaDepositMonitoring_def)
  have f: "in_flight (foldl guarded_step idle [Stop, Invoke, Invoke, Complete, Stop, Invoke, Invoke])
      = 1"
    by (simp add: idle_def pollForDeposits_def pollForDeposits_finally_def
        stopSolanaDepositMonitoring_def)
  have s: "started (foldl guarded_step idle [Stop, Invoke, Invoke, Complete, Stop, Invoke, Invoke])
      = 2"
    by (simp add: idle_def pollForDeposits_def pollForDeposits_finally_def
        stopSolanaDepositMonitoring_def)
  have k: "skipped (foldl guarded_step idle [Stop, Invoke, Invoke, Complete, Stop, Invoke, Invoke])
      = 2"
    by (simp add: idle_def pollForDeposits_def pollForDeposits_finally_def
        stopSolanaDepositMonitoring_def)
  from pollForDeposits_single_flight [OF h] f s k h show ?thesis by blast
qed

text \<open>
  The stop function clears the flag without ending the cycle or the timer: called while a
  cycle runs, it lets the next tick start a second one.
\<close>

lemma stop_during_cycle_allows_overlap:
  "in_flight (foldl guarded_step idle [Invoke, Stop, Invoke]) = 2
   \<and> \<not> stops_between_cycles idle [Invoke, Stop, Invoke]"
  by (simp add: idle_def pollForDeposits_def stopSolanaDepositMonitoring_def)

section \<open>Properties of the deposit processor\<close>

lemma recorded_zero_iff: "recorded st h = 0 \<longleftrightarrow> deposit_findFirst st h = None"
  by (auto simp: recorded_def deposit_findFirst_def find_None_iff filter_empty_conv)

lemma recorded_append:
  "recorded (st\<lparr>deposits := deposits st @ [d]\<rparr>) h =
     recorded st h + (if dep_txHash d = h then 1 else 0)"
  by (simp add: recorded_def)

lemma recorded_credit_balance [simp]:
  "recorded (credit_balance st u cur a) h = recorded st h"
  by (simp add: recorded_def credit_balance_def split: option.splits)

lemma deposits_credit_balance [simp]:
  "deposits (credit_balance st u cur a) = deposits st"
  by (simp add: credit_balance_def split: option.splits)

lemma balances_credit_balance:
  "balances (credit_balance st u cur a) =
     (balances st)((u, cur) := credited (balances st (u, cur)) a)"
  by (auto simp: credit_balance_def credited_def split: option.splits)

lemma dep_txHash_new_deposit [simp]: "dep_txHash (new_deposit l c rate ra) = c_txHash c"
  by (simp add: new_deposit_def)

lemma deposit_create_fresh:
  "recorded st (dep_txHash d) = 0 \<Longrightarrow>
   deposit_create st d = Inr (st\<lparr>deposits := deposits st @ [d]\<rparr>)"
  by (simp add: deposit_create_def recorded_zero_iff)

lemma deposit_create_duplicate:
  "0 < recorded st (dep_txHash d) \<Longrightarrow> deposit_create st d = Inl DuplicateTxHash"
  using recorded_zero_iff [of st "dep_txHash d"]
  by (auto simp: deposit_create_def split: option.splits)

text \<open>
  Claim C3 as stated fails on the listeners. With the price service down, the record
  that \<^verbatim>\<open>processDeposit\<close> creates for a transfer of 5 SOL has amount 5 and the balance
  is credited by 5, but the rate is 1 and the USD arrival is 5, not \<^verbatim>\<open>null\<close>.
\<close>

theorem processDeposit_oracle_down_rate_is_one:
  "processDeposit solana_listener oracle_down (empty_store, {}) five_sol =
     (Inr (),
      (\<lparr>deposits =
          [\<lparr>dep_userId = 7, dep_txHash = ''sig5'', dep_fromAddress = Some ''Sender'',
            dep_toAddress = ''Address7'', dep_currency = ''SOL'', dep_network = ''Solana'',
            dep_amount = 5, dep_rate = Some (Fin 1), dep_realArrival = Some (Fin 5),
            dep_status = Confirmed, dep_type = ''crypto'', dep_blockNumber = Some 1000,
            dep_confirmations = 1\<rparr>],
        balances = (\<lambda>k. None)((7, ''SOL'') \<mapsto> 5)\<rparr>,
       {''sig5''}))"
  by (simp add: processDeposit_def solana_listener_def oracle_down_def empty_store_def
      five_sol_def exchange_rate_def rate_or_fallback_def convert_def getRate_def
      new_deposit_def deposit_create_def deposit_findFirst_def credit_balance_def Let_def)

lemma exchange_rate_oracle_down:
  "exchange_rate l (Inl e) reply2 a = (Fin 1, Fin a)"
  by (simp add: exchange_rate_def rate_or_fallback_def convert_def getRate_def)

lemma map_unmatched:
  "recorded st h = 0 \<Longrightarrow> map (\<lambda>d. if dep_txHash d = h then f d else d) (deposits st) = deposits st"
  by (rule map_idI) (auto simp: recorded_def filter_empty_conv)

lemma createDeposit_oracle_down:
  assumes "recorded st h = 0" and "cur \<noteq> ''USD''"
  shows "createDeposit (Inl e) False st
           \<lparr>data_userId = user, data_txHash = h, data_fromAddress = sender,
            data_toAddress = address, data_currency = cur, data_network = net,
            data_amount = a, data_blockNumber = bn, data_confirmations = cf\<rparr> =
         (Inr \<lparr>dep_userId = user, dep_txHash = h, dep_fromAddress = sender,
                  dep_toAddress = address, dep_currency = cur, dep_network = net,
                  dep_amount = a, dep_rate = None, dep_realArrival = None,
                  dep_status = Pending, dep_type = ''crypto'', dep_blockNumber = bn,
                  dep_confirmations = (case cf of None \<Rightarrow> 0 | Some n \<Rightarrow> n)\<rparr>,
          st\<lparr>deposits := deposits st @
                [\<lparr>dep_userId = user, dep_txHash = h, dep_fromAddress = sender,
                  dep_toAddress = address, dep_currency = cur, dep_network = net,
                  dep_amount = a, dep_rate = None, dep_realArrival = None,
                  dep_status = Pending, dep_type = ''crypto'', dep_blockNumber = bn,
                  dep_confirmations = (case cf of None \<Rightarrow> 0 | Some n \<Rightarrow> n)\<rparr>]\<rparr>)"
proof -
  have conv: "convert unchanged (Inl e) (Fin 1) (js cur) (js ''USD'') = Inl e"
    by (simp add: convert_def getRate_def)
  show ?thesis
    using assms by (simp add: createDeposit_def conv deposit_create_fresh Let_def)
qed

lemma exchange_rate_arrival_down:
  "rate_or_fallback l reply1 = Inr rate \<Longrightarrow> exchange_rate l reply1 (Inl e) a = (rate, Fin a)"
  by (simp add: exchange_rate_def arrival_or_fallback_def convert_def getRate_def)

lemma updateDepositStatus_new:
  assumes "recorded st h = 0" and "dep_txHash d = h"
  shows "updateDepositStatus False (st\<lparr>deposits := deposits st @ [d]\<rparr>) h s (Some n) =
         (Inr (), st\<lparr>deposits := deposits st @ [d\<lparr>dep_status := s, dep_confirmations := n\<rparr>]\<rparr>)"
proof -
  have "recorded (st\<lparr>deposits := deposits st @ [d]\<rparr>) h \<noteq> 0"
    using assms by (simp add: recorded_append)
  then have found: "deposit_findFirst (st\<lparr>deposits := deposits st @ [d]\<rparr>) h \<noteq> None"
    by (simp add: recorded_zero_iff)
  show ?thesis
    using found map_unmatched [OF assms(1)] assms(2)
    by (simp add: updateDepositStatus_def)
qed

text \<open>
  Claim C3, amended. When a call to the price service fails while a transfer of amount
  \<open>a\<close> not yet recorded is processed and the store accepts the writes, the Deposit
  Record is still created with amount \<open>a\<close> and the balance of the user in the currency
  is still credited by \<open>a\<close>. What the record holds as rate and USD arrival depends on the
  function. \<^verbatim>\<open>processDeposit\<close> of the listeners keeps rate 1 and USD arrival \<open>a\<close>
  when its first conversion fails, and the converted rate with USD arrival \<open>a\<close> when its
  first conversion succeeds and its second fails. \<^verbatim>\<open>createDeposit\<close> of the database
  layer, for a currency other than USD, creates the record without rate and without USD
  arrival; \<^verbatim>\<open>processSolanaTransaction\<close>, for SOL, and
  \<^verbatim>\<open>processEthereumTransaction\<close>, for ETH when the confirmations can be read, then
  confirm that record and credit the balance by \<open>a\<close>.
\<close>

theorem oracle_failure_still_credits:
  assumes "recorded st (c_txHash c) = 0" and "recorded st h = 0" and "cur \<noteq> ''USD''"
  shows "processDeposit l
           \<lparr>find_fails = ff, rate_reply = Inl e, arrival_reply = reply2,
            create_fails = False, balance_fails = False\<rparr> (st, seen) c =
         (Inr (),
          (credit_balance (st\<lparr>deposits := deposits st @ [new_deposit l c (Fin 1) (Fin (c_amount c))]\<rparr>)
             (c_userId c) (l_currency l) (c_amount c),
           insert (c_txHash c) seen))
       \<and> (rate_or_fallback l reply1 = Inr rate \<longrightarrow>
            processDeposit l
              \<lparr>find_fails = ff, rate_reply = reply1, arrival_reply = Inl e,
               create_fails = False, balance_fails = False\<rparr> (st, seen) c =
            (Inr (),
             (credit_balance (st\<lparr>deposits := deposits st @ [new_deposit l c rate (Fin (c_amount c))]\<rparr>)
                (c_userId c) (l_currency l) (c_amount c),
              insert (c_txHash c) seen)))
       \<and> dep_amount (new_deposit l c r ra) = c_amount c
       \<and> dep_rate (new_deposit l c r ra) = Some r
       \<and> dep_realArrival (new_deposit l c r ra) = Some ra
       \<and> createDeposit (Inl e) False st
           \<lparr>data_userId = user, data_txHash = h, data_fromAddress = sender,
            data_toAddress = address, data_currency = cur, data_network = net,
            data_amount = a, data_blockNumber = bn, data_confirmations = cf\<rparr> =
         (Inr \<lparr>dep_userId = user, dep_txHash = h, dep_fromAddress = sender,
                  dep_toAddress = address, dep_currency = cur, dep_network = net,
                  dep_amount = a, dep_rate = None, dep_realArrival = None,
                  dep_status = Pending, dep_type = ''crypto'', dep_blockNumber = bn,
                  dep_confirmations = (case cf of None \<Rightarrow> 0 | Some n \<Rightarrow> n)\<rparr>,
          st\<lparr>deposits := deposits st @
                [\<lparr>dep_userId = user, dep_txHash = h, dep_fromAddress = sender,
                  dep_toAddress = address, dep_currency = cur, dep_network = net,
                  dep_amount = a, dep_rate = None, dep_realArrival = None,
                  dep_status = Pending, dep_type = ''crypto'', dep_blockNumber = bn,
                  dep_confirmations = (case cf of None \<Rightarrow> 0 | Some n \<Rightarrow> n)\<rparr>]\<rparr>)
       \<and> processSolanaTransaction
           \<lparr>exists_fails = ef, oracle_reply = Inl e, insert_fails = False,
            update_fails = False, credit_fails = False\<rparr> st h user sender address a slot =
         credit_balance
           (st\<lparr>deposits := deposits st @
                [\<lparr>dep_userId = user, dep_txHash = h, dep_fromAddress = sender,
                  dep_toAddress = address, dep_currency = ''SOL'', dep_network = ''Solana'',
                  dep_amount = a, dep_rate = None, dep_realArrival = None,
                  dep_status = Confirmed, dep_type = ''crypto'', dep_blockNumber = Some slot,
                  dep_confirmations = 1\<rparr>]\<rparr>)
           user ''SOL'' a
       \<and> processEthereumTransaction
           \<lparr>store_replies =
              \<lparr>exists_fails = ef, oracle_reply = Inl e, insert_fails = False,
               update_fails = False, credit_fails = False\<rparr>,
            confirmations_at_create = Inr n1, confirmations_at_update = Inr n2\<rparr>
           st h user sender address a slot =
         credit_balance
           (st\<lparr>deposits := deposits st @
                [\<lparr>dep_userId = user, dep_txHash = h, dep_fromAddress = sender,
                  dep_toAddress = address, dep_currency = ''ETH'', dep_network = ''Ethereum'',
                  dep_amount = a, dep_rate = None, dep_realArrival = None,
                  dep_status = Confirmed, dep_type = ''crypto'', dep_blockNumber = Some slot,
                  dep_confirmations = n2\<rparr>]\<rparr>)
           user ''ETH'' a
       \<and> balances (credit_balance st' user cur a) (user, cur) = credited (balances st' (user, cur)) a"
proof (intro conjI impI)
  show "processDeposit l
           \<lparr>find_fails = ff, rate_reply = Inl e, arrival_reply = reply2,
            create_fails = False, balance_fails = False\<rparr> (st, seen) c =
         (Inr (),
          (credit_balance (st\<lparr>deposits := deposits st @ [new_deposit l c (Fin 1) (Fin (c_amount c))]\<rparr>)
             (c_userId c) (l_currency l) (c_amount c),
           insert (c_txHash c) seen))"
    using assms(1)
    by (simp add: processDeposit_def exchange_rate_oracle_down deposit_create_fresh Let_def)
next
  assume "rate_or_fallback l reply1 = Inr rate"
  then show "processDeposit l
              \<lparr>find_fails = ff, rate_reply = reply1, arrival_reply = Inl e,
               create_fails = False, balance_fails = False\<rparr> (st, seen) c =
            (Inr (),
             (credit_balance (st\<lparr>deposits := deposits st @ [new_deposit l c rate (Fin (c_amount c))]\<rparr>)
                (c_userId c) (l_currency l) (c_amount c),
              insert (c_txHash c) seen))"
    using assms(1)
    by (simp add: processDeposit_def exchange_rate_arrival_down deposit_create_fresh Let_def)
next
  show "createDeposit (Inl e) False st
           \<lparr>data_userId = user, data_txHash = h, data_fromAddress = sender,
            data_toAddress = address, data_currency = cur, data_network = net,
            data_amount = a, data_blockNumber = bn, data_confirmations = cf\<rparr> =
         (Inr \<lparr>dep_userId = user, dep_txHash = h, dep_fromAddress = sender,
                  dep_toAddress = address, dep_currency = cur, dep_network = net,
                  dep_amount = a, dep_rate = None, dep_realArrival = None,
                  dep_status = Pending, dep_type = ''crypto'', dep_blockNumber = bn,
                  dep_confirmations = (case cf of None \<Rightarrow> 0 | Some n \<Rightarrow> n)\<rparr>,
          st\<lparr>deposits := deposits st @
                [\<lparr>dep_userId = user, dep_txHash = h, dep_fromAddress = sender,
                  dep_toAddress = address, dep_currency = cur, dep_network = net,
                  dep_amount = a, dep_rate = None, dep_realArrival = None,
                  dep_status = Pending, dep_type = ''crypto'', dep_blockNumber = bn,
                  dep_confirmations = (case cf of None \<Rightarrow> 0 | Some n \<Rightarrow> n)\<rparr>]\<rparr>)"
    by (rule createDeposit_oracle_down [OF assms(2,3)])
next
  have ex: "\<not> depositExists ef st h"
    using assms(2) by (simp add: depositExists_def)
  have sol: "''SOL'' \<noteq> ''USD''" by simp
  show "processSolanaTransaction
           \<lparr>exists_fails = ef, oracle_reply = Inl e, insert_fails = False,
            update_fails = False, credit_fails = False\<rparr> st h user sender address a slot =
         credit_balance
           (st\<lparr>deposits := deposits st @
                [\<lparr>dep_userId = user, dep_txHash = h, dep_fromAddress = sender,
                  dep_toAddress = address, dep_currency = ''SOL'', dep_network = ''Solana'',
                  dep_amount = a, dep_rate = None, dep_realArrival = None,
                  dep_status = Confirmed, dep_type = ''crypto'', dep_blockNumber = Some slot,
                  dep_confirmations = 1\<rparr>]\<rparr>)
           user ''SOL'' a"
    using ex
    by (simp add: processSolanaTransaction_def createDeposit_oracle_down [OF assms(2) sol]
        updateDepositStatus_new [OF assms(2)] updateUserBalanceAfterDeposit_def)
next
  have ex: "\<not> depositExists ef st h"
    using assms(2) by (simp add: depositExists_def)
  have eth: "''ETH'' \<noteq> ''USD''" by simp
  show "processEthereumTransaction
           \<lparr>store_replies =
              \<lparr>exists_fails = ef, oracle_reply = Inl e, insert_fails = False,
               update_fails = False, credit_fails = False\<rparr>,
            confirmations_at_create = Inr n1, confirmations_at_update = Inr n2\<rparr>
           st h user sender address a slot =
         credit_balance
           (st\<lparr>deposits := deposits st @
                [\<lparr>dep_userId = user, dep_txHash = h, dep_fromAddress = sender,
                  dep_toAddress = address, dep_currency = ''ETH'', dep_network = ''Ethereum'',
                  dep_amount = a, dep_rate = None, dep_realArrival = None,
                  dep_status = Confirmed, dep_type = ''crypto'', dep_blockNumber = Some slot,
                  dep_confirmations = n2\<rparr>]\<rparr>)
           user ''ETH'' a"
    using ex
    by (simp add: processEthereumTransaction_def createDeposit_oracle_down [OF assms(2) eth]
        updateDepositStatus_new [OF assms(2)] updateUserBalanceAfterDeposit_def)
qed (simp_all add: new_deposit_def balances_credit_balance)

theorem oracle_failure_still_credits_witness:
  "recorded empty_store (c_txHash five_sol) = 0
   \<and> recorded empty_store ''0xabc'' = 0
   \<and> rate_or_fallback solana_listener (Inr prices) = Inr (Fin 150)
   \<and> map dep_rate (deposits (fst (snd
         (processDeposit solana_listener oracle_down (empty_store, {}) five_sol)))) = [Some (Fin 1)]
   \<and> map dep_rate (deposits (fst (snd
         (processDeposit solana_listener arrival_down (empty_store, {}) five_sol))))
       = [Some (Fin 150)]
   \<and> map dep_realArrival (deposits (fst (snd
         (processDeposit solana_listener arrival_down (empty_store, {}) five_sol))))
       = [Some (Fin 5)]
   \<and> balances (fst (snd (processDeposit solana_listener arrival_down (empty_store, {}) five_sol)))
       (7, ''SOL'') = Some 5
   \<and> map dep_rate (deposits (processEthereumTransaction eth_db_oracle_down empty_store ''0xabc'' 7
         (Some ''0xsender'') ''0xaddress7'' 5 1000)) = [None]
   \<and> map dep_realArrival (deposits (processEthereumTransaction eth_db_oracle_down empty_store
         ''0xabc'' 7 (Some ''0xsender'') ''0xaddress7'' 5 1000)) = [None]
   \<and> map dep_amount (deposits (processEthereumTransaction eth_db_oracle_down empty_store ''0xabc'' 7
         (Some ''0xsender'') ''0xaddress7'' 5 1000)) = [5]
   \<and> balances (processEthereumTransaction eth_db_oracle_down empty_store ''0xabc'' 7
         (Some ''0xsender'') ''0xaddress7'' 5 1000) (7, ''ETH'') = Some 5
   \<and> balances (processSolanaTransaction db_oracle_down empty_store ''0xabc'' 7
         (Some ''Sender'') ''Address7'' 5 1000) (7, ''SOL'') = Some 5"
proof -
  have h1: "recorded empty_store (c_txHash five_sol) = 0"
    by (simp add: recorded_def empty_store_def)
  have h2: "recorded empty_store ''0xabc'' = 0"
    by (simp add: recorded_def empty_store_def)
  have h3: "''ETH'' \<noteq> ''USD''" by simp
  have h4: "rate_or_fallback solana_listener (Inr prices) = Inr (Fin 150)"
    by (simp add: rate_or_fallback_def solana_listener_def prices_def convert_def getRate_def
        Let_def lookup_rate_def toUSDT_def toUpperCase_def upper_point_def latin1_upper_def
        js_def)
  note t = oracle_failure_still_credits [OF h1 h2 h3, where l = solana_listener and ff = False
      and e = OracleUnavailable and ?reply2.0 = "Inl OracleUnavailable" and seen = "{}"
      and ?reply1.0 = "Inr prices" and rate = "Fin 150"
      and ef = False and user = 7 and sender = "Some ''0xsender''" and address = "''0xaddress7''"
      and a = 5 and slot = 1000 and ?n1.0 = 3 and ?n2.0 = 4,
      folded oracle_down_def arrival_down_def db_oracle_down_def,
      folded eth_db_oracle_down_def]
  note s = oracle_failure_still_credits [OF h1 h2 h3, where l = solana_listener and ff = False
      and e = OracleUnavailable and ?reply2.0 = "Inl OracleUnavailable" and seen = "{}"
      and ?reply1.0 = "Inr prices" and rate = "Fin 150"
      and ef = False and user = 7 and sender = "Some ''Sender''" and address = "''Address7''"
      and a = 5 and slot = 1000 and ?n1.0 = 3 and ?n2.0 = 4,
      folded oracle_down_def arrival_down_def db_oracle_down_def]
  from t have p1: "processDeposit solana_listener oracle_down (empty_store, {}) five_sol =
       (Inr (),
        (credit_balance
           (empty_store\<lparr>deposits := deposits empty_store @
              [new_deposit solana_listener five_sol (Fin 1) (Fin (c_amount five_sol))]\<rparr>)
           (c_userId five_sol) (l_currency solana_listener) (c_amount five_sol),
         insert (c_txHash five_sol) {}))"
    by blast
  from t h4 have p2: "processDeposit solana_listener arrival_down (empty_store, {}) five_sol =
       (Inr (),
        (credit_balance
           (empty_store\<lparr>deposits := deposits empty_store @
              [new_deposit solana_listener five_sol (Fin 150) (Fin (c_amount five_sol))]\<rparr>)
           (c_userId five_sol) (l_currency solana_listener) (c_amount five_sol),
         insert (c_txHash five_sol) {}))"
    by blast
  from t have q: "processEthereumTransaction eth_db_oracle_down empty_store ''0xabc'' 7
         (Some ''0xsender'') ''0xaddress7'' 5 1000 =
       credit_balance
           (empty_store\<lparr>deposits := deposits empty_store @
                [\<lparr>dep_userId = 7, dep_txHash = ''0xabc'', dep_fromAddress = Some ''0xsender'',
                  dep_toAddress = ''0xaddress7'', dep_currency = ''ETH'',
                  dep_network = ''Ethereum'',
                  dep_amount = 5, dep_rate = None, dep_realArrival = None,
                  dep_status = Confirmed, dep_type = ''crypto'', dep_blockNumber = Some 1000,
                  dep_confirmations = 4\<rparr>]\<rparr>)
           7 ''ETH'' 5"
    by blast
  from s have q2: "processSolanaTransaction db_oracle_down empty_store ''0xabc'' 7
         (Some ''Sender'') ''Address7'' 5 1000 =
       credit_balance
           (empty_store\<lparr>deposits := deposits empty_store @
                [\<lparr>dep_userId = 7, dep_txHash = ''0xabc'', dep_fromAddress = Some ''Sender'',
                  dep_toAddress = ''Address7'', dep_currency = ''SOL'', dep_network = ''Solana'',
                  dep_amount = 5, dep_rate = None, dep_realArrival = None,
                  dep_status = Confirmed, dep_type = ''crypto'', dep_blockNumber = Some 1000,
                  dep_confirmations = 1\<rparr>]\<rparr>)
           7 ''SOL'' 5"
    by blast
  have k: "c_userId five_sol = 7" "c_amount five_sol = 5" "l_currency solana_listener = ''SOL''"
    by (simp_all add: five_sol_def solana_listener_def)
  have m1: "map dep_rate (deposits (fst (snd
         (processDeposit solana_listener oracle_down (empty_store, {}) five_sol)))) = [Some (Fin 1)]"
    unfolding p1 by (simp add: empty_store_def new_deposit_def)
  have m2: "map dep_rate (deposits (fst (snd
         (processDeposit solana_listener arrival_down (empty_store, {}) five_sol))))
       = [Some (Fin 150)]"
    unfolding p2 by (simp add: empty_store_def new_deposit_def)
  have m3: "map dep_realArrival (deposits (fst (snd
         (processDeposit solana_listener arrival_down (empty_store, {}) five_sol))))
       = [Some (Fin 5)]"
    unfolding p2 by (simp add: empty_store_def new_deposit_def k)
  have m4: "balances (fst (snd (processDeposit solana_listener arrival_down (empty_store, {}) five_sol)))
       (7, ''SOL'') = Some 5"
    unfolding p2 by (simp add: empty_store_def credit_balance_def k)
  have m5: "map dep_rate (deposits (processEthereumTransaction eth_db_oracle_down empty_store ''0xabc'' 7
         (Some ''0xsender'') ''0xaddress7'' 5 1000)) = [None]"
    unfolding q by (simp add: empty_store_def)
  have m6: "map dep_realArrival (deposits (processEthereumTransaction eth_db_oracle_down empty_store
         ''0xabc'' 7 (Some ''0xsender'') ''0xaddress7'' 5 1000)) = [None]"
    unfolding q by (simp add: empty_store_def)
  have m7: "map dep_amount (deposits (processEthereumTransaction eth_db_oracle_down empty_store ''0xabc'' 7
         (Some ''0xsender'') ''0xaddress7'' 5 1000)) = [5]"
    unfolding q by (simp add: empty_store_def)
  have m8: "balances (processEthereumTransaction eth_db_oracle_down empty_store ''0xabc'' 7
         (Some ''0xsender'') ''0xaddress7'' 5 1000) (7, ''ETH'') = Some 5"
    unfolding q by (simp add: empty_store_def credit_balance_def)
  have m9: "balances (processSolanaTransaction db_oracle_down empty_store ''0xabc'' 7
         (Some ''Sender'') ''Address7'' 5 1000) (7, ''SOL'') = Some 5"
    unfolding q2 by (simp add: empty_store_def credit_balance_def)
  from h1 h2 h4 m1 m2 m3 m4 m5 m6 m7 m8 m9 show ?thesis by blast
qed

section \<open>Properties of interleaved listener runs\<close>

text \<open>
  A task resumed alone does what one run of the loop body of the listener does.
\<close>

lemma served_simps [simp]:
  "ev_task (served fails reply) = 0" "ev_store_fails (served fails reply) = fails"
  "ev_oracle (served fails reply) = reply"
  by (simp_all add: served_def)

lemma step_lone:
  "step l c \<lparr>sys_store = st, sys_seen = sn, sys_tasks = [\<lparr>t_proc = q, t_pc = p\<rparr>]\<rparr>
     (served fails reply) =
   (let r = resume l c (served fails reply) st (sn q) p in
    \<lparr>sys_store = fst r, sys_seen = sn(q := fst (snd r)),
     sys_tasks = [\<lparr>t_proc = q, t_pc = snd (snd r)\<rparr>]\<rparr>)"
  by (simp add: step_def served_def Let_def)

lemma lone_task_agrees:
  "(sys_store (run l c \<lparr>sys_store = st, sys_seen = sn, sys_tasks = [\<lparr>t_proc = q, t_pc = Start\<rparr>]\<rparr>
       (alone_events l env)),
    sys_seen (run l c \<lparr>sys_store = st, sys_seen = sn, sys_tasks = [\<lparr>t_proc = q, t_pc = Start\<rparr>]\<rparr>
       (alone_events l env)) q)
   = monitor_candidate l env (st, sn q) c"
proof (cases "c_txHash c \<in> sn q")
  case True
  then show ?thesis
    by (cases "rate_or_fallback l (rate_reply env)")
      (simp_all add: run_def alone_events_def step_lone resume_def Let_def
        monitor_candidate_def isTransactionProcessed_def)
next
  case unseen: False
  show ?thesis
  proof (cases "find_fails env")
    case True
    with unseen show ?thesis
      by (cases "rate_or_fallback l (rate_reply env)")
        (simp_all add: run_def alone_events_def step_lone resume_def Let_def
          monitor_candidate_def isTransactionProcessed_def)
  next
    case found: False
    show ?thesis
    proof (cases "deposit_findFirst st (c_txHash c)")
      case (Some d)
      with unseen found show ?thesis
        by (cases "rate_or_fallback l (rate_reply env)")
          (simp_all add: run_def alone_events_def step_lone resume_def Let_def
            monitor_candidate_def isTransactionProcessed_def)
    next
      case None
      show ?thesis
      proof (cases "rate_or_fallback l (rate_reply env)")
        case (Inl e)
        with unseen found None show ?thesis
          by (cases "deposit_create st (new_deposit l c (Fin 1) (Fin (c_amount c)))")
            (simp_all add: run_def alone_events_def step_lone resume_def Let_def
              monitor_candidate_def isTransactionProcessed_def processDeposit_def
              exchange_rate_def)
      next
        case (Inr rate)
        with unseen found None show ?thesis
          by (cases "deposit_create st
                (new_deposit l c rate (arrival_or_fallback l (arrival_reply env) (c_amount c)))")
            (simp_all add: run_def alone_events_def step_lone resume_def Let_def
              monitor_candidate_def isTransactionProcessed_def processDeposit_def
              exchange_rate_def)
      qed
    qed
  qed
qed
























text \<open>Two processes, one after the other: the second finds the record in the store.\<close>

lemma one_then_other_run:
  "run solana_listener five_sol
     \<lparr>sys_store = empty_store, sys_seen = (\<lambda>q. {}), sys_tasks = two_processes\<rparr> one_then_other =
   \<lparr>sys_store =
      \<lparr>deposits = [new_deposit solana_listener five_sol (Fin 150) (Fin 750)],
       balances = (\<lambda>k. None)((7, ''SOL'') \<mapsto> 5)\<rparr>,
    sys_seen = (\<lambda>q. {})(0 := {''sig5''}, 1 := {''sig5''}),
    sys_tasks = [\<lparr>t_proc = 0, t_pc = Done\<rparr>, \<lparr>t_proc = 1, t_pc = Skipped\<rparr>]\<rparr>"
  by (simp add: run_def one_then_other_def resume_ok_def two_processes_def step_def resume_def
      Let_def solana_listener_def five_sol_def empty_store_def prices_def
      rate_or_fallback_def arrival_or_fallback_def convert_def getRate_def lookup_rate_def
      toUSDT_def toUpperCase_def upper_point_def latin1_upper_def js_def
      new_deposit_def deposit_create_def deposit_findFirst_def credit_balance_def)

section \<open>The two writes of the deposit processor\<close>

lemma processDeposit_balance_down:
  "processDeposit solana_listener balance_down (empty_store, {}) five_sol =
     (Inl StoreFailure,
      (\<lparr>deposits = [new_deposit solana_listener five_sol (Fin 150) (Fin 750)],
        balances = (\<lambda>k. None)\<rparr>, {}))"
  by (simp add: processDeposit_def solana_listener_def balance_down_def empty_store_def
      five_sol_def prices_def exchange_rate_def rate_or_fallback_def arrival_or_fallback_def
      convert_def getRate_def lookup_rate_def toUSDT_def toUpperCase_def upper_point_def
      latin1_upper_def js_def new_deposit_def deposit_create_def deposit_findFirst_def Let_def)

text \<open>
  Claim C2 as stated fails. When the balance transaction is rejected after the record
  was created, \<^verbatim>\<open>processDeposit\<close> throws and leaves the store with the Deposit Record
  of the transfer and without the credit: the create is a write of its own, outside the
  transaction that updates the balance.
\<close>

theorem processDeposit_record_without_credit:
  "processDeposit solana_listener balance_down (empty_store, {}) five_sol =
     (Inl StoreFailure,
      (\<lparr>deposits = [new_deposit solana_listener five_sol (Fin 150) (Fin 750)],
        balances = (\<lambda>k. None)\<rparr>, {}))
   \<and> recorded (fst (snd (processDeposit solana_listener balance_down (empty_store, {}) five_sol)))
        ''sig5'' = 1
   \<and> balances (fst (snd (processDeposit solana_listener balance_down (empty_store, {}) five_sol)))
        (7, ''SOL'') = None"
  unfolding processDeposit_balance_down
  by (simp add: recorded_def new_deposit_def five_sol_def)

text \<open>
  On a later scan the transfer is found in the store and skipped, so the credit is not
  made up for.
\<close>

lemma uncredited_deposit_is_skipped_later:
  "monitor_candidate solana_listener all_well
     (\<lparr>deposits = [new_deposit solana_listener five_sol (Fin 150) (Fin 750)],
       balances = (\<lambda>k. None)\<rparr>, {}) five_sol =
   (\<lparr>deposits = [new_deposit solana_listener five_sol (Fin 150) (Fin 750)],
     balances = (\<lambda>k. None)\<rparr>, {''sig5''})"
  by (simp add: monitor_candidate_def isTransactionProcessed_def all_well_def
      deposit_findFirst_def new_deposit_def five_sol_def)

text \<open>
  Claim C2, amended. \<^verbatim>\<open>processDeposit\<close> creates the Deposit Record first, as a write
  of its own, and credits the balance afterwards in a separate transaction. When it
  returns normally both are persisted: the record is new and the balance is credited
  once. When it throws, the balance is as before. If the create is rejected or the hash
  is already recorded, nothing is written. If the create succeeds and the balance
  transaction is rejected, the record stays without its credit.
\<close>

theorem processDeposit_two_writes:
  assumes "processDeposit l env (st, seen) c = (res, (st', seen'))"
  shows "(res = Inr () \<longrightarrow>
            recorded st (c_txHash c) = 0 \<and> recorded st' (c_txHash c) = 1
            \<and> balances st' = (balances st)((c_userId c, l_currency l) :=
                 credited (balances st (c_userId c, l_currency l)) (c_amount c))
            \<and> seen' = insert (c_txHash c) seen)
       \<and> (res \<noteq> Inr () \<longrightarrow> balances st' = balances st \<and> seen' = seen)
       \<and> (create_fails env \<or> 0 < recorded st (c_txHash c) \<longrightarrow> res \<noteq> Inr () \<and> st' = st)
       \<and> (\<not> create_fails env \<and> recorded st (c_txHash c) = 0 \<and> balance_fails env \<longrightarrow>
            res = Inl StoreFailure \<and> recorded st' (c_txHash c) = 1
            \<and> balances st' = balances st)"
proof -
  have cases_create: "\<And>rate ra.
      deposit_create st (new_deposit l c rate ra) =
        (if recorded st (c_txHash c) = 0
         then Inr (st\<lparr>deposits := deposits st @ [new_deposit l c rate ra]\<rparr>)
         else Inl DuplicateTxHash)"
    using deposit_create_fresh [of st "new_deposit l c _ _"]
      deposit_create_duplicate [of st "new_deposit l c _ _"]
    by auto
  show ?thesis
    using assms
    by (auto simp: processDeposit_def Let_def cases_create recorded_append
        balances_credit_balance split: if_splits)
qed

theorem processDeposit_two_writes_witness:
  "processDeposit solana_listener balance_down (empty_store, {}) five_sol =
     (Inl StoreFailure,
      (\<lparr>deposits = [new_deposit solana_listener five_sol (Fin 150) (Fin 750)],
        balances = (\<lambda>k. None)\<rparr>, {}))
   \<and> \<not> create_fails balance_down \<and> recorded empty_store (c_txHash five_sol) = 0
   \<and> balance_fails balance_down
   \<and> recorded \<lparr>deposits = [new_deposit solana_listener five_sol (Fin 150) (Fin 750)],
        balances = (\<lambda>k. None)\<rparr> (c_txHash five_sol) = 1
   \<and> balances \<lparr>deposits = [new_deposit solana_listener five_sol (Fin 150) (Fin 750)],
        balances = (\<lambda>k. None)\<rparr> = balances empty_store
   \<and> fst (processDeposit solana_listener all_well (empty_store, {}) five_sol) = Inr ()
   \<and> recorded (fst (snd (processDeposit solana_listener all_well (empty_store, {}) five_sol)))
        (c_txHash five_sol) = 1
   \<and> balances (fst (snd (processDeposit solana_listener all_well (empty_store, {}) five_sol)))
        (7, ''SOL'') = Some 5"
proof -
  let ?st = "\<lparr>deposits = [new_deposit solana_listener five_sol (Fin 150) (Fin 750)],
        balances = (\<lambda>k. None)\<rparr>"
  have e: "processDeposit solana_listener balance_down (empty_store, {}) five_sol =
     (Inl StoreFailure, (?st, {}))"
    by (rule processDeposit_balance_down)
  have h: "\<not> create_fails balance_down" "recorded empty_store (c_txHash five_sol) = 0"
    "balance_fails balance_down"
    by (simp_all add: balance_down_def recorded_def empty_store_def)
  from processDeposit_two_writes [OF e] h
  have c1: "recorded ?st (c_txHash five_sol) = 1 \<and> balances ?st = balances empty_store"
    by blast
  obtain st' seen' where
    ok: "processDeposit solana_listener all_well (empty_store, {}) five_sol = (Inr (), (st', seen'))"
    by (simp add: processDeposit_def all_well_def empty_store_def deposit_create_def
        deposit_findFirst_def Let_def)
  from processDeposit_two_writes [OF ok]
  have c2: "recorded st' (c_txHash five_sol) = 1"
    "balances st' = (balances empty_store)((c_userId five_sol, l_currency solana_listener) :=
        credited (balances empty_store (c_userId five_sol, l_currency solana_listener))
          (c_amount five_sol))"
    by blast+
  have b: "balances st' (7, ''SOL'') = Some 5"
    by (simp add: c2(2) five_sol_def solana_listener_def empty_store_def credited_def)
  have g1: "fst (processDeposit solana_listener all_well (empty_store, {}) five_sol) = Inr ()"
    by (simp add: ok)
  have g2: "recorded (fst (snd (processDeposit solana_listener all_well (empty_store, {}) five_sol)))
        (c_txHash five_sol) = 1"
    by (simp add: ok c2(1))
  have g3: "balances (fst (snd (processDeposit solana_listener all_well (empty_store, {}) five_sol)))
        (7, ''SOL'') = Some 5"
    by (simp add: ok b)
  from e h c1 g1 g2 g3 show ?thesis by blast
qed

end
